theory Spec2Isabelle
  imports Complex_Main "HOL-Library.Word" "HOL-Library.AList"
begin

section \<open>Python string primitives\<close>

text \<open>
  Message texts are modelled as \<open>string\<close> (a list of 8-bit characters) over the ASCII
  alphabet: case folding touches the letters \<open>A\<close>..\<open>Z\<close> only, and whitespace is the
  set of ASCII characters for which Python's \<open>str.isspace\<close> holds.
\<close>

definition upper_chars :: string where
  "upper_chars = ''ABCDEFGHIJKLMNOPQRSTUVWXYZ''"

definition lower_chars :: string where
  "lower_chars = ''abcdefghijklmnopqrstuvwxyz''"

definition digit_chars :: string where
  "digit_chars = ''0123456789''"

text \<open>\<open>str.isspace\<close> on ASCII: tab, line feed, vertical tab, form feed, carriage return,
  the four separators \<open>0x1c\<close>..\<open>0x1f\<close>, and the space.\<close>

definition space_chars :: string where
  "space_chars = [CHR 0x09, CHR 0x0A, CHR 0x0B, CHR 0x0C, CHR 0x0D,
                  CHR 0x1C, CHR 0x1D, CHR 0x1E, CHR 0x1F, CHR '' '']"

definition is_space :: "char \<Rightarrow> bool" where
  "is_space c = (c \<in> set space_chars)"

definition lower_char :: "char \<Rightarrow> char" where
  "lower_char c = (case map_of (zip upper_chars lower_chars) c of Some d \<Rightarrow> d | None \<Rightarrow> c)"

definition upper_char :: "char \<Rightarrow> char" where
  "upper_char c = (case map_of (zip lower_chars upper_chars) c of Some d \<Rightarrow> d | None \<Rightarrow> c)"

text \<open>\<open>s.lower()\<close> and \<open>s.upper()\<close>.\<close>

definition py_lower :: "string \<Rightarrow> string" where
  "py_lower s = map lower_char s"

definition py_upper :: "string \<Rightarrow> string" where
  "py_upper s = map upper_char s"

text \<open>\<open>s.strip()\<close>: leading and trailing whitespace removed.\<close>

definition py_strip :: "string \<Rightarrow> string" where
  "py_strip s = rev (dropWhile is_space (rev (dropWhile is_space s)))"

text \<open>\<open>s.startswith(p)\<close>.\<close>

fun starts_with :: "string \<Rightarrow> string \<Rightarrow> bool" where
  "starts_with [] s = True"
| "starts_with (p # ps) [] = False"
| "starts_with (p # ps) (c # cs) = (p = c \<and> starts_with ps cs)"

text \<open>\<open>p in s\<close> for strings: \<open>p\<close> occurs in \<open>s\<close> as a contiguous substring.\<close>

fun py_in :: "string \<Rightarrow> string \<Rightarrow> bool" where
  "py_in p [] = (p = [])"
| "py_in p (c # cs) = (starts_with p (c # cs) \<or> py_in p cs)"

text \<open>\<open>any(p in s for p in ps)\<close>.\<close>

definition any_in :: "string list \<Rightarrow> string \<Rightarrow> bool" where
  "any_in ps s = list_ex (\<lambda>p. py_in p s) ps"

text \<open>\<open>s.split(sep)\<close> for a one-character separator: the pieces between the separators,
  empty pieces included; the result always has at least one piece.\<close>

fun py_split :: "char \<Rightarrow> string \<Rightarrow> string list" where
  "py_split sep [] = [[]]"
| "py_split sep (c # cs) =
     (if c = sep then [] # py_split sep cs
      else (case py_split sep cs of
              [] \<Rightarrow> [[c]]
            | p # ps \<Rightarrow> (c # p) # ps))"


text \<open>\<open>s.split()\<close>: the maximal runs of non-whitespace characters.\<close>

fun py_words_acc :: "string \<Rightarrow> string \<Rightarrow> string list" where
  "py_words_acc w [] = (if w = [] then [] else [rev w])"
| "py_words_acc w (c # cs) =
     (if is_space c then (if w = [] then py_words_acc [] cs else rev w # py_words_acc [] cs)
      else py_words_acc (c # w) cs)"

definition py_words :: "string \<Rightarrow> string list" where
  "py_words s = py_words_acc [] s"

section \<open>Results of Python calls\<close>

text \<open>
  A call either returns a value or raises an exception. The handlers of this program
  catch \<open>Exception\<close> without looking at it, so the exception carries no payload here.
\<close>

datatype 'a outcome = Returns 'a | Raises

text \<open>A Python \<open>dict\<close> keeps its keys in insertion order: an association list.
  \<open>d[k] = v\<close> is \<open>AList.update k v d\<close>, \<open>d.get(k, default)\<close> is \<open>dict_get\<close>,
  \<open>d[k]\<close> raises \<open>KeyError\<close> on a missing key, and \<open>del d[k]\<close> is \<open>AList.delete k d\<close>.\<close>

type_synonym ('k, 'v) dict = "('k \<times> 'v) list"

definition dict_get :: "('k, 'v) dict \<Rightarrow> 'k \<Rightarrow> 'v \<Rightarrow> 'v" where
  "dict_get d k dflt = (case map_of d k of Some v \<Rightarrow> v | None \<Rightarrow> dflt)"

definition dict_item :: "('k, 'v) dict \<Rightarrow> 'k \<Rightarrow> 'v outcome" where
  "dict_item d k = (case map_of d k of Some v \<Rightarrow> Returns v | None \<Rightarrow> Raises)"

definition dict_has :: "('k, 'v) dict \<Rightarrow> 'k \<Rightarrow> bool" where
  "dict_has d k = (map_of d k \<noteq> None)"

text \<open>\<open>xs[i]\<close> for a non-negative index: \<open>IndexError\<close> out of range.\<close>

definition list_item :: "'a list \<Rightarrow> nat \<Rightarrow> 'a outcome" where
  "list_item xs i = (if i < length xs then Returns (xs ! i) else Raises)"

section \<open>Regular expressions (the part of Python's \<open>re\<close> the program uses)\<close>

text \<open>
  A backtracking matcher in the style of \<open>re\<close>: every construct yields its possible
  continuations in the order in which \<open>re\<close> tries them (alternatives left to right,
  repetition greedy), and the first one that lets the rest of the pattern match wins.
  All patterns of the program are compiled with \<open>re.IGNORECASE\<close>, so literals and
  classes are compared case-insensitively. A matcher state is the character before the
  current position (for \<open>\b\<close>), the remaining text, and the groups captured so far.
\<close>

datatype regex =
    Eps
  | Lit char
  | Cls "char list"
  | Dot
  | WordB
  | Seq regex regex
  | Alt regex regex
  | Star regex
  | Grp nat regex

type_synonym mstate = "char option \<times> string \<times> (nat \<times> string) list"

text \<open>\<open>\w\<close> on ASCII.\<close>

definition word_chars :: string where
  "word_chars = lower_chars @ upper_chars @ digit_chars @ ''_''"

definition is_word :: "char option \<Rightarrow> bool" where
  "is_word p = (case p of None \<Rightarrow> False | Some c \<Rightarrow> c \<in> set word_chars)"

definition next_char :: "string \<Rightarrow> char option" where
  "next_char s = (case s of [] \<Rightarrow> None | c # _ \<Rightarrow> Some c)"

definition cls_match :: "char list \<Rightarrow> char \<Rightarrow> bool" where
  "cls_match cs c = (c \<in> set cs \<or> lower_char c \<in> set cs \<or> upper_char c \<in> set cs)"

definition set_group :: "nat \<Rightarrow> string \<Rightarrow> mstate \<Rightarrow> mstate" where
  "set_group k whole st =
     (case st of (p, rest, caps) \<Rightarrow>
        (p, rest, AList.update k (take (length whole - length rest) whole) caps))"

function (sequential) rmatch :: "regex \<Rightarrow> mstate \<Rightarrow> mstate list" where
  "rmatch Eps st = [st]"
| "rmatch (Lit c) (p, [], caps) = []"
| "rmatch (Lit c) (p, x # xs, caps) =
     (if lower_char x = lower_char c then [(Some x, xs, caps)] else [])"
| "rmatch (Cls cs) (p, [], caps) = []"
| "rmatch (Cls cs) (p, x # xs, caps) =
     (if cls_match cs x then [(Some x, xs, caps)] else [])"
| "rmatch Dot (p, [], caps) = []"
| "rmatch Dot (p, x # xs, caps) =
     (if x \<noteq> CHR 0x0A then [(Some x, xs, caps)] else [])"
| "rmatch WordB (p, rest, caps) =
     (if is_word p \<noteq> is_word (next_char rest) then [(p, rest, caps)] else [])"
| "rmatch (Seq a b) st = concat (map (rmatch b) (rmatch a st))"
| "rmatch (Alt a b) st = rmatch a st @ rmatch b st"
| "rmatch (Star r) st =
     concat (map (rmatch (Star r))
               (filter (\<lambda>st'. length (fst (snd st')) < length (fst (snd st))) (rmatch r st)))
     @ [st]"
| "rmatch (Grp k r) st = map (set_group k (fst (snd st))) (rmatch r st)"
  by pat_completeness auto
termination
  by (relation "measures [\<lambda>(r, st). size r, \<lambda>(r, st). length (fst (snd st))]") auto

declare rmatch.simps(11) [simp del]

text \<open>Pattern syntax built from the constructors: a literal word, \<open>a|b|c\<close>, a sequence,
  \<open>r+\<close>, \<open>r?\<close>, \<open>r{lo,hi}\<close> and \<open>r{lo,}\<close>.\<close>

definition lit :: "string \<Rightarrow> regex" where
  "lit s = foldr (\<lambda>c r. Seq (Lit c) r) s Eps"

fun alts :: "regex list \<Rightarrow> regex" where
  "alts [] = Eps"
| "alts [r] = r"
| "alts (r # rs) = Alt r (alts rs)"

fun seqs :: "regex list \<Rightarrow> regex" where
  "seqs [] = Eps"
| "seqs [r] = r"
| "seqs (r # rs) = Seq r (seqs rs)"

definition re_plus :: "regex \<Rightarrow> regex" where
  "re_plus r = Seq r (Star r)"

definition re_opt :: "regex \<Rightarrow> regex" where
  "re_opt r = Alt r Eps"

fun re_upto :: "nat \<Rightarrow> regex \<Rightarrow> regex" where
  "re_upto 0 r = Eps"
| "re_upto (Suc n) r = re_opt (Seq r (re_upto n r))"

fun re_times :: "nat \<Rightarrow> regex \<Rightarrow> regex \<Rightarrow> regex" where
  "re_times 0 r k = k"
| "re_times (Suc n) r k = Seq r (re_times n r k)"

definition re_rep :: "nat \<Rightarrow> nat \<Rightarrow> regex \<Rightarrow> regex" where
  "re_rep lo hi r = re_times lo r (re_upto (hi - lo) r)"

definition re_rep_from :: "nat \<Rightarrow> regex \<Rightarrow> regex" where
  "re_rep_from lo r = re_times lo r (Star r)"

fun ngroups :: "regex \<Rightarrow> nat" where
  "ngroups (Seq a b) = ngroups a + ngroups b"
| "ngroups (Alt a b) = ngroups a + ngroups b"
| "ngroups (Star r) = ngroups r"
| "ngroups (Grp k r) = Suc (ngroups r)"
| "ngroups _ = 0"

text \<open>
  What \<open>re.findall\<close> lists for one match: the matched text for a pattern without
  groups, the group's text for a pattern with one group, and the tuple of all groups'
  texts for a pattern with two or more (a tuple therefore has at least two components).
  A group that took no part in the match reads as the empty string.
\<close>

datatype py_match = MStr string | MTuple string string "string list"

definition group_text :: "(nat \<times> string) list \<Rightarrow> nat \<Rightarrow> string" where
  "group_text caps k = (case map_of caps k of Some s \<Rightarrow> s | None \<Rightarrow> [])"

definition match_value :: "regex \<Rightarrow> string \<Rightarrow> mstate \<Rightarrow> py_match" where
  "match_value r whole st =
     (case st of (p, rest, caps) \<Rightarrow>
        if ngroups r = 0 then MStr (take (length whole - length rest) whole)
        else if ngroups r = 1 then MStr (group_text caps 1)
        else MTuple (group_text caps 1) (group_text caps 2)
               (map (group_text caps) [3 ..< Suc (ngroups r)]))"

text \<open>
  The scan of \<open>re.findall\<close>: try the pattern at the current position; after a match go
  on behind it, otherwise move one character on. No pattern of this program matches the
  empty string; for an empty match the scan records it and moves one character on.
\<close>

fun find_from :: "regex \<Rightarrow> char option \<Rightarrow> string \<Rightarrow> py_match list" where
  "find_from r p s =
     (case rmatch r (p, s, []) of
        [] \<Rightarrow> (case s of [] \<Rightarrow> [] | x # xs \<Rightarrow> find_from r (Some x) xs)
      | st # _ \<Rightarrow>
          match_value r s st #
            (if length (fst (snd st)) < length s then find_from r (fst st) (fst (snd st))
             else (case s of [] \<Rightarrow> [] | x # xs \<Rightarrow> find_from r (Some x) xs)))"

declare find_from.simps [simp del]

definition re_findall :: "regex \<Rightarrow> string \<Rightarrow> py_match list" where
  "re_findall r s = find_from r None s"

text \<open>\<open>re.search(r, s)\<close> followed by \<open>.group()\<close>: the text of the first match, if any.\<close>

fun search_from :: "regex \<Rightarrow> char option \<Rightarrow> string \<Rightarrow> string option" where
  "search_from r p s =
     (case rmatch r (p, s, []) of
        [] \<Rightarrow> (case s of [] \<Rightarrow> None | x # xs \<Rightarrow> search_from r (Some x) xs)
      | st # _ \<Rightarrow> Some (take (length s - length (fst (snd st))) s))"

declare search_from.simps [simp del]

definition re_search :: "regex \<Rightarrow> string \<Rightarrow> string option" where
  "re_search r s = search_from r None s"

definition cls_digit :: regex where
  "cls_digit = Cls digit_chars"

definition cls_space :: regex where
  "cls_space = Cls space_chars"

section \<open>Message parser (utils/message_parser.py)\<close>

datatype Intent =
    ORDER_CREATE | ORDER_STATUS | ORDER_CANCEL | FAQ_GENERAL | FAQ_HOURS | FAQ_CONTACT
  | REJECT_RESPONSE | HELP | GREETING | UNKNOWN

text \<open>A pattern of the shape \<open>\b(w1|w2|...)\b\<close>, the alternatives given as regexes.\<close>

definition word_group :: "regex list \<Rightarrow> regex" where
  "word_group rs = seqs [WordB, Grp 1 (alts rs), WordB]"

text \<open>\<open>a.*b\<close> for two literal words.\<close>

definition gap :: "string \<Rightarrow> string \<Rightarrow> regex" where
  "gap a b = seqs [lit a, Star Dot, lit b]"

text \<open>\<open>MessageParser.intent_patterns\<close>, in the order of the dictionary literal.\<close>

definition intent_patterns :: "(Intent \<times> regex list) list" where
  "intent_patterns =
    [(ORDER_CREATE,
        [word_group [lit ''order'', lit ''buy'', lit ''purchase'', lit ''want'', lit ''need''],
         word_group [gap ''create'' ''order'', gap ''new'' ''order'', gap ''place'' ''order''],
         word_group [lit ''i want'', lit ''i need'', lit ''looking for'']]),
     (ORDER_STATUS,
        [word_group [lit ''status'', lit ''track'', gap ''where'' ''order'', gap ''order'' ''status''],
         word_group [gap ''check'' ''order'', gap ''find'' ''order''],
         seqs [WordB, lit ''ord'', Star (Cls (''-'' @ space_chars)), re_plus cls_digit, WordB]]),
     (ORDER_CANCEL,
        [seqs [WordB, Grp 1 (alts [lit ''cancel'', lit ''delete'', lit ''remove'']),
               Star Dot, lit ''order'', WordB],
         word_group [lit ''cancel'', lit ''stop'']]),
     (FAQ_HOURS,
        [word_group [lit ''hours'', lit ''time'', lit ''open'', lit ''close'', lit ''when''],
         word_group [gap ''working'' ''hours'', gap ''business'' ''hours'']]),
     (FAQ_CONTACT,
        [word_group [lit ''contact'', lit ''phone'', lit ''email'', lit ''address''],
         word_group [lit ''reach'', lit ''call'', lit ''write'']]),
     (HELP,
        [word_group [lit ''help'', lit ''assist'', lit ''support''],
         word_group [gap ''what'' ''can'', gap ''how'' ''work'']]),
     (GREETING,
        [word_group [lit ''hello'', lit ''hi'', lit ''hey'', lit ''good morning'',
                     lit ''good afternoon''],
         word_group [lit ''greetings'', lit ''welcome'']]),
     (REJECT_RESPONSE,
        [word_group [lit ''no'', lit ''not'', lit ''reject'', lit ''decline'', lit ''refuse''],
         word_group [lit (''don'' @ [CHR 0x27] @ ''t want''), lit ''not interested'']])]"

text \<open>\<open>MessageParser.entity_patterns\<close>, in the order of the dictionary literal. The
  pattern for \<open>order_id\<close> is \<open>\b(ord|order)[-\s]*(\d+)\b\<close>.\<close>

definition order_id_pattern :: regex where
  "order_id_pattern =
     seqs [WordB, Grp 1 (alts [lit ''ord'', lit ''order'']),
           Star (Cls (''-'' @ space_chars)), Grp 2 (re_plus cls_digit), WordB]"

definition phone_number_pattern :: regex where
  "phone_number_pattern =
     seqs [re_opt (Lit CHR ''+''),
           re_rep 10 15 (Cls (digit_chars @ space_chars @ ''-()''))]"

definition email_pattern :: regex where
  "email_pattern =
     seqs [WordB, re_plus (Cls (upper_chars @ lower_chars @ digit_chars @ ''._%+-'')),
           Lit CHR ''@'', re_plus (Cls (upper_chars @ lower_chars @ digit_chars @ ''.-'')),
           Lit CHR ''.'', re_rep_from 2 (Cls (upper_chars @ ''|'' @ lower_chars)), WordB]"

definition quantity_pattern :: regex where
  "quantity_pattern =
     seqs [WordB, Grp 1 (re_plus cls_digit), Star cls_space,
           re_opt (Grp 2 (alts [lit ''piece'', lit ''pieces'', lit ''item'', lit ''items''])),
           WordB]"

definition product_pattern :: regex where
  "product_pattern =
     seqs [WordB, Grp 1 (alts [lit ''laptop'', lit ''phone'', lit ''computer'', lit ''tablet'',
                               lit ''monitor'', lit ''keyboard'', lit ''mouse'']),
           Star (Cls word_chars), WordB]"

definition entity_patterns :: "(string \<times> regex) list" where
  "entity_patterns =
    [(''order_id'', order_id_pattern),
     (''phone_number'', phone_number_pattern),
     (''email'', email_pattern),
     (''quantity'', quantity_pattern),
     (''product'', product_pattern)]"

text \<open>The inner loop of \<open>_detect_intent\<close>: the number of matches of all patterns of
  one intent.\<close>

definition intent_score :: "regex list \<Rightarrow> string \<Rightarrow> nat" where
  "intent_score patterns message =
     fold (\<lambda>pattern score. score + length (re_findall pattern message)) patterns 0"

text \<open>The outer loop: \<open>intent_scores\<close> holds the intents with a positive score, in
  table order.\<close>

definition intent_scores :: "string \<Rightarrow> (Intent, nat) dict" where
  "intent_scores message =
     fold (\<lambda>(intent, patterns) scores.
             if intent_score patterns message > 0
             then AList.update intent (intent_score patterns message) scores
             else scores)
          intent_patterns []"

text \<open>Python's \<open>max(d, key=d.get)\<close> on a non-empty dictionary: the first key, in
  iteration order, with the greatest value: the running best is replaced only by a
  strictly greater value.\<close>

fun py_max_from :: "'k \<times> nat \<Rightarrow> ('k, nat) dict \<Rightarrow> 'k \<times> nat" where
  "py_max_from best [] = best"
| "py_max_from best (kv # kvs) = py_max_from (if snd kv > snd best then kv else best) kvs"

text \<open>\<open>_detect_intent\<close>. The confidence is a Python float; it is modelled by the exact
  rational \<open>min (score * 3/10) 1\<close>.\<close>

definition detect_intent :: "string \<Rightarrow> Intent \<times> rat" where
  "detect_intent message =
     (case intent_scores message of
        [] \<Rightarrow> (UNKNOWN, 0)
      | kv # kvs \<Rightarrow>
          (let best = py_max_from kv kvs;
               best_intent = fst best;
               max_score = snd best
           in (best_intent, min (of_nat max_score * (3 / 10)) 1)))"

text \<open>\<open>_extract_entities\<close>: for \<open>order_id\<close> the second component of each match tuple,
  for every other entity type the match itself or the first component of the tuple.\<close>

definition order_id_of_match :: "py_match \<Rightarrow> string" where
  "order_id_of_match m = (case m of MTuple a b rest \<Rightarrow> b | MStr s \<Rightarrow> s)"

definition entity_of_match :: "py_match \<Rightarrow> string" where
  "entity_of_match m = (case m of MStr s \<Rightarrow> s | MTuple a b rest \<Rightarrow> a)"

definition extract_entities :: "string \<Rightarrow> (string, string list) dict" where
  "extract_entities message =
     fold (\<lambda>(entity_type, pattern) entities.
             (let matches = re_findall pattern message in
              if matches \<noteq> [] then
                (if entity_type = ''order_id''
                 then AList.update entity_type (map order_id_of_match matches) entities
                 else AList.update entity_type (map entity_of_match matches) entities)
              else entities))
          entity_patterns []"

record parsed_message =
  original_message :: string
  intent :: Intent
  confidence :: rat
  entities :: "(string, string list) dict"
  message_length :: nat
  word_count :: nat

definition parse_message :: "string \<Rightarrow> parsed_message" where
  "parse_message message =
     (let message_lower = py_strip (py_lower message);
          ic = detect_intent message_lower
      in \<lparr> original_message = message, intent = fst ic, confidence = snd ic,
           entities = extract_entities message, message_length = length message,
           word_count = length (py_words message) \<rparr>)"

text \<open>\<open>extract_order_details\<close>. The loop body is \<open>process_line\<close>; \<open>line.split(':')[1]\<close>
  and the reads of \<open>order_details['notes']\<close> raise where Python would.\<close>

definition initial_order_details :: "(string, string) dict" where
  "initial_order_details =
     [(''product'', []), (''quantity'', ''1''), (''customer_name'', []),
      (''customer_phone'', []), (''address'', []), (''notes'', [])]"

definition labelled_value :: "string \<Rightarrow> string outcome" where
  "labelled_value line =
     (case list_item (py_split CHR '':'' line) 1 of
        Raises \<Rightarrow> Raises
      | Returns v \<Rightarrow> Returns (py_strip v))"

definition process_line :: "string \<Rightarrow> (string, string) dict \<Rightarrow> (string, string) dict outcome" where
  "process_line line order_details =
     (let line_lower = py_lower (py_strip line) in
      if py_in ''name:'' line_lower then
        (case labelled_value line of
           Raises \<Rightarrow> Raises
         | Returns v \<Rightarrow> Returns (AList.update ''customer_name'' v order_details))
      else if py_in ''phone:'' line_lower then
        (case labelled_value line of
           Raises \<Rightarrow> Raises
         | Returns v \<Rightarrow> Returns (AList.update ''customer_phone'' v order_details))
      else if py_in ''address:'' line_lower then
        (case labelled_value line of
           Raises \<Rightarrow> Raises
         | Returns v \<Rightarrow> Returns (AList.update ''address'' v order_details))
      else if py_in ''quantity:'' line_lower \<or> py_in ''qty:'' line_lower then
        (case re_search (re_plus cls_digit) line of
           Some q \<Rightarrow> Returns (AList.update ''quantity'' q order_details)
         | None \<Rightarrow> Returns order_details)
      else if any_in [''want'', ''order'', ''buy'', ''need''] line_lower then
        Returns (AList.update ''product'' (py_strip line) order_details)
      else if py_strip line \<noteq> [] \<and>
              \<not> any_in [''name:'', ''phone:'', ''address:'', ''quantity:''] line_lower then
        (case dict_item order_details ''notes'' of
           Raises \<Rightarrow> Raises
         | Returns n \<Rightarrow> Returns (AList.update ''notes'' (n @ py_strip line @ '' '') order_details))
      else Returns order_details)"

fun process_lines :: "string list \<Rightarrow> (string, string) dict \<Rightarrow> (string, string) dict outcome" where
  "process_lines [] order_details = Returns order_details"
| "process_lines (line # lines) order_details =
     (case process_line line order_details of
        Raises \<Rightarrow> Raises
      | Returns d \<Rightarrow> process_lines lines d)"

definition extract_order_details :: "string \<Rightarrow> (string, string) dict outcome" where
  "extract_order_details message =
     (case process_lines (py_split CHR 0x0A (py_strip message)) initial_order_details of
        Raises \<Rightarrow> Raises
      | Returns d \<Rightarrow>
          (case dict_item d ''notes'' of
             Raises \<Rightarrow> Raises
           | Returns n \<Rightarrow> Returns (AList.update ''notes'' (py_strip n) d)))"

text \<open>\<open>extract_order_id\<close>: the first \<open>order_id\<close> entity, or \<open>None\<close>.\<close>

definition extract_order_id :: "string \<Rightarrow> string option" where
  "extract_order_id message =
     (case dict_get (extract_entities message) ''order_id'' [] of
        [] \<Rightarrow> None
      | oid # _ \<Rightarrow> Some oid)"

section \<open>Persistence (services/database_service.py)\<close>

text \<open>
  JSON values of the detail bags: strings and booleans, and the ISO text of a clock
  reading (\<open>datetime.now().isoformat()\<close>), kept as the reading itself.
\<close>

datatype jval = JStr string | JBool bool | JIso int

text \<open>
  What \<open>datetime.fromisoformat(text.replace('Z', '+00:00'))\<close> makes of a stored
  \<open>created_at\<close> text: a naive datetime, an aware datetime, or a \<open>ValueError\<close>. Clock
  readings are in microseconds.
\<close>

datatype stamp = Naive int | Aware int | Unparsable

record customer =
  c_phone_number :: string
  c_name :: "string option"
  c_email :: "string option"
  c_created_at :: int
  c_updated_at :: int
  c_metadata :: "(string, jval) dict"

record order =
  o_order_id :: string
  o_customer_phone :: string
  o_product :: string
  o_quantity :: int
  o_status :: string
  o_details :: "(string, jval) dict"
  o_created_at :: stamp
  o_updated_at :: stamp

text \<open>
  The database: the \<open>customers\<close> and \<open>orders\<close> tables keyed by their primary keys, the
  reading of SQLite's \<open>CURRENT_TIMESTAMP\<close> (UTC), the reading of Python's \<open>datetime.now()\<close>
  (local time; the two differ by the host's offset from UTC), and
  the faults to come: every \<open>with sqlite3.connect(...)\<close> block takes the next entry, and
  \<open>True\<close> makes the block raise \<open>sqlite3.Error\<close> before it changes anything. (The
  \<open>conversations\<close> table is written by the webhook handler only and is left out.)
\<close>

record db_state =
  customers :: "(string, customer) dict"
  orders :: "(string, order) dict"
  sql_clock :: int
  py_clock :: int
  faults :: "bool list"

definition sqlite_block :: "db_state \<Rightarrow> bool \<times> db_state" where
  "sqlite_block d =
     (case faults d of
        [] \<Rightarrow> (True, d)
      | f # fs \<Rightarrow> (\<not> f, d\<lparr>faults := fs\<rparr>))"

definition get_customer :: "string \<Rightarrow> db_state \<Rightarrow> customer option \<times> db_state" where
  "get_customer phone_number d =
     (case sqlite_block d of
        (True, d1) \<Rightarrow> (map_of (customers d1) phone_number, d1)
      | (False, d1) \<Rightarrow> (None, d1))"

text \<open>\<open>INSERT OR REPLACE\<close>: the row of this phone number is replaced by a new one.\<close>

definition create_customer ::
  "string \<Rightarrow> string option \<Rightarrow> string option \<Rightarrow> (string, jval) dict option \<Rightarrow> db_state
     \<Rightarrow> bool \<times> db_state" where
  "create_customer phone_number name email metadata d =
     (case sqlite_block d of
        (True, d1) \<Rightarrow>
          (True, d1\<lparr>customers :=
             AList.update phone_number
               \<lparr> c_phone_number = phone_number, c_name = name, c_email = email,
                 c_created_at = sql_clock d1, c_updated_at = sql_clock d1,
                 c_metadata = (case metadata of None \<Rightarrow> [] | Some m \<Rightarrow> m) \<rparr>
               (customers d1)\<rparr>)
      | (False, d1) \<Rightarrow> (False, d1))"

text \<open>An SQLite \<open>INTEGER\<close> holds 64 bits; a larger Python int raises \<open>OverflowError\<close>.\<close>

definition sqlite_integer :: "int \<Rightarrow> bool" where
  "sqlite_integer n = (- (2 ^ 63) \<le> n \<and> n < 2 ^ 63)"

text \<open>\<open>create_order\<close>: the \<open>INSERT\<close> fails on an order id that is already a key.\<close>

definition create_order ::
  "string \<Rightarrow> string \<Rightarrow> string \<Rightarrow> int \<Rightarrow> (string, jval) dict option \<Rightarrow> db_state
     \<Rightarrow> bool \<times> db_state" where
  "create_order order_id customer_phone product quantity details d =
     (let (c, d1) = get_customer customer_phone d;
          d2 = (if c = None then snd (create_customer customer_phone None None None d1) else d1)
      in case sqlite_block d2 of
           (True, d3) \<Rightarrow>
             if \<not> dict_has (orders d3) order_id \<and> sqlite_integer quantity then
               (True, d3\<lparr>orders :=
                  AList.update order_id
                    \<lparr> o_order_id = order_id, o_customer_phone = customer_phone,
                      o_product = product, o_quantity = quantity, o_status = ''pending'',
                      o_details = (case details of None \<Rightarrow> [] | Some m \<Rightarrow> m),
                      o_created_at = Naive (sql_clock d3),
                      o_updated_at = Naive (sql_clock d3) \<rparr>
                    (orders d3)\<rparr>)
             else (False, d3)
         | (False, d3) \<Rightarrow> (False, d3))"

definition get_order :: "string \<Rightarrow> db_state \<Rightarrow> order option \<times> db_state" where
  "get_order order_id d =
     (case sqlite_block d of
        (True, d1) \<Rightarrow> (map_of (orders d1) order_id, d1)
      | (False, d1) \<Rightarrow> (None, d1))"

text \<open>\<open>ORDER BY created_at DESC\<close>, on the clock reading of the stored text: latest
  first, rows with equal \<open>created_at\<close> in the order of their insertion (the sort is
  stable).\<close>

definition stamp_key :: "stamp \<Rightarrow> int" where
  "stamp_key t = (case t of Naive n \<Rightarrow> n | Aware n \<Rightarrow> n | Unparsable \<Rightarrow> 0)"

definition get_customer_orders :: "string \<Rightarrow> db_state \<Rightarrow> order list \<times> db_state" where
  "get_customer_orders customer_phone d =
     (case sqlite_block d of
        (True, d1) \<Rightarrow>
          (sort_key (\<lambda>r. - stamp_key (o_created_at r))
             (filter (\<lambda>r. o_customer_phone r = customer_phone) (map snd (orders d1))),
           d1)
      | (False, d1) \<Rightarrow> ([], d1))"

text \<open>\<open>d.update(other)\<close>.\<close>

definition dict_update :: "('k, 'v) dict \<Rightarrow> ('k, 'v) dict \<Rightarrow> ('k, 'v) dict" where
  "dict_update other d = fold (\<lambda>(k, v) acc. AList.update k v acc) other d"

text \<open>\<open>update_order_status\<close>: opens its connection, reads the order through \<open>get_order\<close>
  (a connection of its own), merges the details and writes status and details.\<close>

definition update_order_status ::
  "string \<Rightarrow> string \<Rightarrow> (string, jval) dict option \<Rightarrow> db_state \<Rightarrow> bool \<times> db_state" where
  "update_order_status order_id status details d =
     (case sqlite_block d of
        (False, d1) \<Rightarrow> (False, d1)
      | (True, d1) \<Rightarrow>
          (case get_order order_id d1 of
             (None, d2) \<Rightarrow> (False, d2)
           | (Some current_order, d2) \<Rightarrow>
               (let updated_details =
                      (case details of
                         None \<Rightarrow> o_details current_order
                       | Some m \<Rightarrow> if m \<noteq> [] then dict_update m (o_details current_order)
                                   else o_details current_order)
                in (True, d2\<lparr>orders :=
                      map (\<lambda>(k, r). if k = order_id
                                     then (k, r\<lparr>o_status := status, o_details := updated_details,
                                               o_updated_at := Naive (sql_clock d2)\<rparr>)
                                     else (k, r))
                          (orders d2)\<rparr>))))"

text \<open>\<open>timedelta.days\<close> of a difference of two readings: whole days, rounded down.\<close>

definition timedelta_days :: "int \<Rightarrow> int" where
  "timedelta_days diff = diff div 86400000000"

text \<open>\<open>cancel_order\<close>. The body of its \<open>try\<close> raises on a \<open>created_at\<close> text that does not
  parse and on the subtraction of an aware from a naive datetime.\<close>

definition cancel_order_body ::
  "string \<Rightarrow> string option \<Rightarrow> db_state \<Rightarrow> (bool \<times> string) outcome \<times> db_state" where
  "cancel_order_body order_id reason d =
     (case get_order order_id d of
        (None, d1) \<Rightarrow> (Returns (False, ''Order not found''), d1)
      | (Some ord, d1) \<Rightarrow>
          if o_status ord \<in> set [''delivered'', ''cancelled''] then
            (Returns (False, ''Cannot cancel order with status: '' @ o_status ord), d1)
          else
            (case o_created_at ord of
               Unparsable \<Rightarrow> (Raises, d1)
             | Aware t \<Rightarrow> (Raises, d1)
             | Naive created_at \<Rightarrow>
                 (let time_diff = py_clock d1 - created_at in
                  if timedelta_days time_diff \<ge> 1 then
                    (Returns (False, ''Order cannot be cancelled after 24 hours''), d1)
                  else
                    (let cancel_details =
                           AList.update ''cancelled_at'' (JIso (py_clock d1))
                             (AList.update ''cancellation_reason''
                                (JStr (case reason of
                                         None \<Rightarrow> ''Customer request''
                                       | Some r \<Rightarrow> if r \<noteq> [] then r else ''Customer request''))
                                (o_details ord));
                         (success, d2) = update_order_status order_id ''cancelled''
                                           (Some cancel_details) d1
                     in (Returns (success, if success then ''Order cancelled successfully''
                                           else ''Error cancelling order''), d2)))))"

definition cancel_order :: "string \<Rightarrow> string option \<Rightarrow> db_state \<Rightarrow> (bool \<times> string) \<times> db_state" where
  "cancel_order order_id reason d =
     (case cancel_order_body order_id reason d of
        (Returns r, d1) \<Rightarrow> (r, d1)
      | (Raises, d1) \<Rightarrow> ((False, ''Error cancelling order''), d1))"

text \<open>
  The agents receive their database service through the constructor (the tests hand
  them mocks), so they are modelled against the interface of the service: each method
  takes the state of the service, returns or raises, and leaves a new state.
\<close>

record 'db database_service =
  svc_get_customer :: "string \<Rightarrow> 'db \<Rightarrow> customer option outcome \<times> 'db"
  svc_create_customer ::
    "string \<Rightarrow> string option \<Rightarrow> (string, jval) dict \<Rightarrow> 'db \<Rightarrow> bool outcome \<times> 'db"
  svc_create_order ::
    "string \<Rightarrow> string \<Rightarrow> string \<Rightarrow> int \<Rightarrow> (string, jval) dict \<Rightarrow> 'db \<Rightarrow> bool outcome \<times> 'db"
  svc_get_order :: "string \<Rightarrow> 'db \<Rightarrow> order option outcome \<times> 'db"
  svc_get_customer_orders :: "string \<Rightarrow> 'db \<Rightarrow> order list outcome \<times> 'db"
  svc_cancel_order :: "string \<Rightarrow> string \<Rightarrow> 'db \<Rightarrow> (bool \<times> string) outcome \<times> 'db"

definition returning :: "'a \<times> 's \<Rightarrow> 'a outcome \<times> 's" where
  "returning r = (Returns (fst r), snd r)"

text \<open>\<open>DatabaseService\<close> itself: every method catches what goes wrong inside it, so none
  of them raises.\<close>

definition DatabaseService :: "db_state database_service" where
  "DatabaseService =
     \<lparr> svc_get_customer = (\<lambda>phone d. returning (get_customer phone d)),
       svc_create_customer =
         (\<lambda>phone name metadata d. returning (create_customer phone name None (Some metadata) d)),
       svc_create_order =
         (\<lambda>order_id phone product quantity details d.
            returning (create_order order_id phone product quantity (Some details) d)),
       svc_get_order = (\<lambda>order_id d. returning (get_order order_id d)),
       svc_get_customer_orders = (\<lambda>phone d. returning (get_customer_orders phone d)),
       svc_cancel_order = (\<lambda>order_id reason d. returning (cancel_order order_id (Some reason) d)) \<rparr>"

section \<open>Rejection classifier (agents/reject_agent.py)\<close>

definition not_interested_phrases :: "string list" where
  "not_interested_phrases = [''not interested'', ''don'' @ [CHR 0x27] @ ''t want'', ''not looking'']"

definition too_expensive_phrases :: "string list" where
  "too_expensive_phrases =
     [''too expensive'', ''too much'', ''can'' @ [CHR 0x27] @ ''t afford'', ''cost'', ''price'']"

definition wrong_timing_phrases :: "string list" where
  "wrong_timing_phrases = [''not now'', ''bad timing'', ''busy'', ''later'']"

definition need_to_think_phrases :: "string list" where
  "need_to_think_phrases = [''think about'', ''consider'', ''decide'', ''maybe'']"

text \<open>\<open>RejectAgent._analyze_rejection\<close>: the rejection type is one of five string tags.\<close>

definition analyze_rejection :: "string \<Rightarrow> string" where
  "analyze_rejection message =
     (let message_lower = py_lower message in
      if any_in not_interested_phrases message_lower then ''not_interested''
      else if any_in too_expensive_phrases message_lower then ''too_expensive''
      else if any_in wrong_timing_phrases message_lower then ''wrong_timing''
      else if any_in need_to_think_phrases message_lower then ''need_to_think''
      else ''general_no'')"

definition rejection_types :: "string list" where
  "rejection_types =
     [''not_interested'', ''too_expensive'', ''wrong_timing'', ''need_to_think'', ''general_no'']"


section \<open>Responses\<close>

text \<open>
  The agents answer with fixed texts, some with values filled in. A response is the
  text's name together with the values filled in; formatting is not modelled.
\<close>

datatype response =
    OrderAgentError
  | OrderCreateError
  | OrderFormatError
  | ProductPrompt
  | NamePrompt
  | PhonePrompt
  | AddressPrompt
  | WizardRestart
  | OrderConfirmation string string string string string
  | OrderNotFound string
  | OrderStatusText order
  | CustomerOrdersText "order list"
  | NoOrdersFound
  | CancelOrderNotFound string
  | CancelNotOwner
  | OrderCancelled string string
  | CannotCancel string
  | CancellableOrders "order list"
  | NoCancellableOrders
  | OrderHelp
  | BusinessHours bool
  | ContactInfo
  | DeliveryInfo
  | PaymentInfo
  | ReturnsInfo
  | ProductsInfo
  | HelpInfo
  | FaqError
  | Rejection string
  | RejectionError
  | GreetingReturning string
  | GreetingNew
  | PricingInfo
  | DeliveryHint
  | UnknownMenu
  | RouterError

text \<open>What a handler hands back: a text, or Python's \<open>None\<close> when it falls off its end.\<close>

type_synonym reply = "response option"

section \<open>Order agent (agents/order_agent.py)\<close>

text \<open>A guided order in progress: the entry of \<open>pending_orders\<close> for one sender.\<close>

record pending_order =
  step :: string
  data :: "(string, string) dict"
  started_at :: int

text \<open>The state shared by the agents: the pending orders of the order agent and the
  state of the database service.\<close>

record 'db agent_state =
  pending_orders :: "(string, pending_order) dict"
  database :: 'db

text \<open>What a call reads from outside: \<open>datetime.now()\<close> (reading, weekday, hour) and
  the value of \<open>uuid.uuid4()\<close>.\<close>

record env =
  env_now :: int
  env_weekday :: nat
  env_hour :: nat
  env_uuid4 :: "128 word"

text \<open>\<open>try: body except Exception: handler\<close>. The state changes made before the
  exception stay.\<close>

definition try_except :: "'a outcome \<times> 's \<Rightarrow> ('s \<Rightarrow> 'a outcome \<times> 's) \<Rightarrow> 'a outcome \<times> 's" where
  "try_except body handler =
     (case body of
        (Raises, s) \<Rightarrow> handler s
      | (Returns v, s) \<Rightarrow> (Returns v, s))"

text \<open>A call followed by the rest of the block: an exception ends the block.\<close>

definition call :: "'a outcome \<times> 's \<Rightarrow> ('a \<Rightarrow> 's \<Rightarrow> 'b outcome \<times> 's) \<Rightarrow> 'b outcome \<times> 's" where
  "call m k =
     (case m of
        (Raises, s) \<Rightarrow> (Raises, s)
      | (Returns v, s) \<Rightarrow> k v s)"

text \<open>A call of a method of the database service.\<close>

definition with_db ::
  "('db \<Rightarrow> 'a outcome \<times> 'db) \<Rightarrow> 'db agent_state \<Rightarrow> 'a outcome \<times> 'db agent_state" where
  "with_db f st = (case f (database st) of (r, d) \<Rightarrow> (r, st\<lparr>database := d\<rparr>))"

text \<open>\<open>str(uuid.uuid4())\<close>: 32 lower-case hexadecimal digits in groups of 8, 4, 4, 4
  and 12, joined by hyphens.\<close>

definition hex_chars :: string where
  "hex_chars = ''0123456789abcdef''"

fun hex_of :: "nat \<Rightarrow> int \<Rightarrow> string" where
  "hex_of 0 v = []"
| "hex_of (Suc n) v = hex_of n (v div 16) @ [hex_chars ! nat (v mod 16)]"

definition uuid_str :: "128 word \<Rightarrow> string" where
  "uuid_str u =
     (let h = hex_of 32 (uint u)
      in take 8 h @ ''-'' @ take 4 (drop 8 h) @ ''-'' @ take 4 (drop 12 h) @ ''-'' @
         take 4 (drop 16 h) @ ''-'' @ drop 20 h)"

text \<open>\<open>f"ORD-{str(uuid.uuid4())[:8].upper()}"\<close>, the order id of both creation paths.\<close>

definition new_order_id :: "128 word \<Rightarrow> string" where
  "new_order_id u = ''ORD-'' @ py_upper (take 8 (uuid_str u))"

text \<open>\<open>int(s)\<close> on the strings the parser can hand over (runs of digits); anything else
  raises \<open>ValueError\<close>.\<close>

definition digit_value :: "char \<Rightarrow> int" where
  "digit_value c = int (length (takeWhile (\<lambda>d. d \<noteq> c) digit_chars))"

definition py_int :: "string \<Rightarrow> int outcome" where
  "py_int s =
     (if s \<noteq> [] \<and> list_all (\<lambda>c. c \<in> set digit_chars) s
      then Returns (fold (\<lambda>c n. 10 * n + digit_value c) s 0)
      else Raises)"

definition is_complete_order :: "string \<Rightarrow> bool" where
  "is_complete_order message =
     (let required_fields = [''product'', ''name'', ''phone'', ''address''];
          message_lower = py_lower message;
          found_fields =
            fold (\<lambda>field found. if py_in field message_lower \<or> py_in (field @ '':'') message_lower
                                 then found + 1 else found)
                 required_fields (0::nat)
      in found_fields \<ge> 3)"

definition get_order_confirmation :: "string \<Rightarrow> (string, string) dict \<Rightarrow> response" where
  "get_order_confirmation order_id order_details =
     OrderConfirmation order_id
       (dict_get order_details ''product'' ''N/A'')
       (dict_get order_details ''customer_name'' ''N/A'')
       (dict_get order_details ''customer_phone'' ''N/A'')
       (dict_get order_details ''address'' ''N/A'')"

text \<open>\<open>_create_order_from_message\<close>: the whole body is one \<open>try\<close>.\<close>

definition create_order_from_message_body ::
  "'db database_service \<Rightarrow> env \<Rightarrow> string \<Rightarrow> string \<Rightarrow> 'db agent_state
     \<Rightarrow> reply outcome \<times> 'db agent_state" where
  "create_order_from_message_body svc e message sender_number st =
     (case extract_order_details message of
        Raises \<Rightarrow> (Raises, st)
      | Returns order_details \<Rightarrow>
          (let order_id = new_order_id (env_uuid4 e) in
           call (with_db (svc_get_customer svc sender_number) st) (\<lambda>customer st1.
           call (if customer = None
                 then with_db (svc_create_customer svc sender_number
                                 (Some (dict_get order_details ''customer_name'' ''Unknown''))
                                 [(''source'', JStr ''whatsapp_order'')]) st1
                 else (Returns True, st1)) (\<lambda>created st2.
           (case (case map_of order_details ''quantity'' of
                    None \<Rightarrow> Returns 1
                  | Some q \<Rightarrow> py_int q) of
              Raises \<Rightarrow> (Raises, st2)
            | Returns quantity \<Rightarrow>
                call (with_db (svc_create_order svc order_id sender_number
                                 (dict_get order_details ''product'' ''Product not specified'')
                                 quantity
                                 [(''customer_name'', JStr (dict_get order_details ''customer_name'' [])),
                                  (''customer_phone'',
                                     JStr (dict_get order_details ''customer_phone'' sender_number)),
                                  (''address'', JStr (dict_get order_details ''address'' [])),
                                  (''notes'', JStr (dict_get order_details ''notes'' [])),
                                  (''created_via'', JStr ''whatsapp''),
                                  (''agent_processed'', JBool True)]) st2) (\<lambda>success st3.
                if success
                then (Returns (Some (get_order_confirmation order_id order_details)), st3)
                else (Returns (Some OrderCreateError), st3)))))))"

definition create_order_from_message ::
  "'db database_service \<Rightarrow> env \<Rightarrow> string \<Rightarrow> string \<Rightarrow> 'db agent_state
     \<Rightarrow> reply outcome \<times> 'db agent_state" where
  "create_order_from_message svc e message sender_number st =
     try_except (create_order_from_message_body svc e message sender_number st)
       (\<lambda>s. (Returns (Some OrderFormatError), s))"

definition start_guided_order_creation ::
  "env \<Rightarrow> string \<Rightarrow> string \<Rightarrow> 'db agent_state \<Rightarrow> reply outcome \<times> 'db agent_state" where
  "start_guided_order_creation e message sender_number st =
     (Returns (Some ProductPrompt),
      st\<lparr>pending_orders :=
           AList.update sender_number
             \<lparr> step = ''product'', data = [], started_at = env_now e \<rparr>
             (pending_orders st)\<rparr>)"

text \<open>One answered step of the guided order: the field is stored in the session's data
  and the session moves on.\<close>

definition record_answer ::
  "string \<Rightarrow> string \<Rightarrow> string \<Rightarrow> string \<Rightarrow> pending_order \<Rightarrow> 'db agent_state \<Rightarrow> 'db agent_state" where
  "record_answer sender_number field message next_step order_data st =
     st\<lparr>pending_orders :=
          AList.update sender_number
            (order_data\<lparr>data := AList.update field (py_strip message) (data order_data),
                        step := next_step\<rparr>)
            (pending_orders st)\<rparr>"

text \<open>The last answer is stored likewise; the step stays as it is.\<close>

definition store_answer ::
  "string \<Rightarrow> string \<Rightarrow> string \<Rightarrow> pending_order \<Rightarrow> 'db agent_state \<Rightarrow> 'db agent_state" where
  "store_answer sender_number field message order_data st =
     st\<lparr>pending_orders :=
          AList.update sender_number
            (order_data\<lparr>data := AList.update field (py_strip message) (data order_data)\<rparr>)
            (pending_orders st)\<rparr>"

text \<open>The details of a guided order:
  \<open>{**order_data['data'], 'created_via': 'whatsapp_guided', 'agent_processed': True}\<close>.\<close>

definition guided_details :: "(string, string) dict \<Rightarrow> (string, jval) dict" where
  "guided_details d =
     AList.update ''agent_processed'' (JBool True)
       (AList.update ''created_via'' (JStr ''whatsapp_guided'')
          (map (\<lambda>(k, v). (k, JStr v)) d))"

text \<open>The body of the \<open>try\<close> of \<open>_continue_order_creation\<close>. In the last step the answer
  is stored first; then \<open>order_data['data']['product']\<close> is read (a \<open>KeyError\<close> when it is
  missing), the order is created, and the session is deleted. A step that is none of the
  four falls off the end of the function.\<close>

definition continue_order_creation_body ::
  "'db database_service \<Rightarrow> env \<Rightarrow> string \<Rightarrow> string \<Rightarrow> pending_order \<Rightarrow> 'db agent_state
     \<Rightarrow> reply outcome \<times> 'db agent_state" where
  "continue_order_creation_body svc e message sender_number order_data st =
     (let current_step = step order_data in
      if current_step = ''product'' then
        (Returns (Some NamePrompt),
         record_answer sender_number ''product'' message ''name'' order_data st)
      else if current_step = ''name'' then
        (Returns (Some PhonePrompt),
         record_answer sender_number ''customer_name'' message ''phone'' order_data st)
      else if current_step = ''phone'' then
        (Returns (Some AddressPrompt),
         record_answer sender_number ''customer_phone'' message ''address'' order_data st)
      else if current_step = ''address'' then
        (let st1 = store_answer sender_number ''address'' message order_data st;
             d = AList.update ''address'' (py_strip message) (data order_data);
             order_id = new_order_id (env_uuid4 e)
         in case dict_item d ''product'' of
              Raises \<Rightarrow> (Raises, st1)
            | Returns product \<Rightarrow>
                call (with_db (svc_create_order svc order_id sender_number product 1
                                 (guided_details d)) st1) (\<lambda>success st2.
                if dict_has (pending_orders st2) sender_number then
                  (let st3 = st2\<lparr>pending_orders :=
                                   AList.delete sender_number (pending_orders st2)\<rparr>
                   in if success
                      then (Returns (Some (get_order_confirmation order_id d)), st3)
                      else (Returns (Some OrderCreateError), st3))
                else (Raises, st2)))
      else (Returns None, st))"

text \<open>\<open>_continue_order_creation\<close>: the session is read outside the \<open>try\<close>; the handler
  of the \<open>try\<close> deletes the session when it is still there and asks to start over.\<close>

definition continue_order_creation ::
  "'db database_service \<Rightarrow> env \<Rightarrow> string \<Rightarrow> string \<Rightarrow> 'db agent_state
     \<Rightarrow> reply outcome \<times> 'db agent_state" where
  "continue_order_creation svc e message sender_number st =
     (case map_of (pending_orders st) sender_number of
        None \<Rightarrow> (Raises, st)
      | Some order_data \<Rightarrow>
          try_except (continue_order_creation_body svc e message sender_number order_data st)
            (\<lambda>s. (Returns (Some WizardRestart),
                  if dict_has (pending_orders s) sender_number
                  then s\<lparr>pending_orders := AList.delete sender_number (pending_orders s)\<rparr>
                  else s)))"

text \<open>\<open>_handle_order_creation\<close>. (The entities of the parsed message are read and not
  used.)\<close>

definition handle_order_creation ::
  "'db database_service \<Rightarrow> env \<Rightarrow> string \<Rightarrow> string \<Rightarrow> parsed_message \<Rightarrow> 'db agent_state
     \<Rightarrow> reply outcome \<times> 'db agent_state" where
  "handle_order_creation svc e message sender_number parsed st =
     (if dict_has (pending_orders st) sender_number then
        continue_order_creation svc e message sender_number st
      else if is_complete_order message then
        create_order_from_message svc e message sender_number st
      else
        start_guided_order_creation e message sender_number st)"

definition handle_order_status ::
  "'db database_service \<Rightarrow> string \<Rightarrow> string \<Rightarrow> parsed_message \<Rightarrow> 'db agent_state
     \<Rightarrow> reply outcome \<times> 'db agent_state" where
  "handle_order_status svc message sender_number parsed st =
     (case extract_order_id message of
        Some order_id \<Rightarrow>
          call (with_db (svc_get_order svc (''ORD-'' @ order_id)) st) (\<lambda>ord st1.
            case ord of
              Some r \<Rightarrow> (Returns (Some (OrderStatusText r)), st1)
            | None \<Rightarrow> (Returns (Some (OrderNotFound order_id)), st1))
      | None \<Rightarrow>
          call (with_db (svc_get_customer_orders svc sender_number) st) (\<lambda>ords st1.
            if ords \<noteq> [] then (Returns (Some (CustomerOrdersText (take 5 ords))), st1)
            else (Returns (Some NoOrdersFound), st1)))"

text \<open>\<open>s.split(sep)\<close> for a separator of several characters.\<close>

fun py_split_str_from :: "string \<Rightarrow> nat \<Rightarrow> string \<Rightarrow> string list" where
  "py_split_str_from sep skip [] = [[]]"
| "py_split_str_from sep (Suc skip) (c # cs) = py_split_str_from sep skip cs"
| "py_split_str_from sep 0 (c # cs) =
     (if starts_with sep (c # cs) then [] # py_split_str_from sep (length sep - 1) cs
      else (case py_split_str_from sep 0 cs of
              [] \<Rightarrow> [[c]]
            | p # ps \<Rightarrow> (c # p) # ps))"

definition py_split_str :: "string \<Rightarrow> string \<Rightarrow> string list" where
  "py_split_str sep s = py_split_str_from sep 0 s"

definition cancellation_reason :: "string \<Rightarrow> string outcome" where
  "cancellation_reason message =
     (if py_in ''reason:'' (py_lower message) then
        (case list_item (py_split_str ''reason:'' (py_lower message)) 1 of
           Raises \<Rightarrow> Raises
         | Returns r \<Rightarrow> Returns (py_strip r))
      else Returns ''Customer request via WhatsApp'')"

definition handle_order_cancellation ::
  "'db database_service \<Rightarrow> string \<Rightarrow> string \<Rightarrow> parsed_message \<Rightarrow> 'db agent_state
     \<Rightarrow> reply outcome \<times> 'db agent_state" where
  "handle_order_cancellation svc message sender_number parsed st =
     (case extract_order_id message of
        Some n \<Rightarrow>
          (let order_id = ''ORD-'' @ n in
           call (with_db (svc_get_order svc order_id) st) (\<lambda>ord st1.
             case ord of
               None \<Rightarrow> (Returns (Some (CancelOrderNotFound order_id)), st1)
             | Some r \<Rightarrow>
                 if o_customer_phone r \<noteq> sender_number then (Returns (Some CancelNotOwner), st1)
                 else
                   (case cancellation_reason message of
                      Raises \<Rightarrow> (Raises, st1)
                    | Returns reason \<Rightarrow>
                        call (with_db (svc_cancel_order svc order_id reason) st1) (\<lambda>res st2.
                          if fst res then (Returns (Some (OrderCancelled order_id reason)), st2)
                          else (Returns (Some (CannotCancel (snd res))), st2)))))
      | None \<Rightarrow>
          call (with_db (svc_get_customer_orders svc sender_number) st) (\<lambda>ords st1.
            (let cancellable_orders =
                   filter (\<lambda>r. o_status r \<notin> set [''delivered'', ''cancelled'']) ords
             in if cancellable_orders \<noteq> []
                then (Returns (Some (CancellableOrders (take 5 cancellable_orders))), st1)
                else (Returns (Some NoCancellableOrders), st1))))"

text \<open>\<open>OrderAgent.handle_message\<close>.\<close>

definition order_handle_message ::
  "'db database_service \<Rightarrow> env \<Rightarrow> Intent \<Rightarrow> string \<Rightarrow> string \<Rightarrow> parsed_message
     \<Rightarrow> 'db agent_state \<Rightarrow> reply outcome \<times> 'db agent_state" where
  "order_handle_message svc e i message sender_number parsed st =
     try_except
       (if i = ORDER_CREATE then handle_order_creation svc e message sender_number parsed st
        else if i = ORDER_STATUS then handle_order_status svc message sender_number parsed st
        else if i = ORDER_CANCEL then handle_order_cancellation svc message sender_number parsed st
        else (Returns (Some OrderHelp), st))
       (\<lambda>s. (Returns (Some OrderAgentError), s))"

section \<open>FAQ agent (agents/faq_agent.py)\<close>

definition is_business_hours :: "nat \<Rightarrow> nat \<Rightarrow> bool" where
  "is_business_hours weekday hour =
     (if weekday \<le> 4 then 9 \<le> hour \<and> hour < 17
      else if weekday = 5 then 10 \<le> hour \<and> hour < 14
      else False)"

definition get_business_hours_response :: "env \<Rightarrow> response" where
  "get_business_hours_response e = BusinessHours (is_business_hours (env_weekday e) (env_hour e))"

text \<open>The FAQ table. Its responses are built when the agent is constructed, so the
  opening status inside the \<open>hours\<close> response is that of the construction time.\<close>

definition faqs :: "bool \<Rightarrow> (string \<times> string list \<times> response) list" where
  "faqs open_at_init =
     [(''hours'', [''hours'', ''time'', ''open'', ''close'', ''when'', ''working''],
         BusinessHours open_at_init),
      (''contact'', [''contact'', ''phone'', ''email'', ''address'', ''reach'', ''call''],
         ContactInfo),
      (''delivery'', [''delivery'', ''shipping'', ''ship'', ''deliver'', ''how long''],
         DeliveryInfo),
      (''payment'', [''payment'', ''pay'', ''price'', ''cost'', ''money'', ''credit''],
         PaymentInfo),
      (''returns'', [''return'', ''refund'', ''exchange'', ''warranty''], ReturnsInfo),
      (''products'', [''products'', ''catalog'', ''items'', ''sell'', ''available''],
         ProductsInfo)]"

definition keyword_score :: "string list \<Rightarrow> string \<Rightarrow> nat" where
  "keyword_score keywords message_lower =
     fold (\<lambda>keyword score. if py_in keyword message_lower then score + 1 else score) keywords 0"

definition handle_general_faq :: "bool \<Rightarrow> string \<Rightarrow> response outcome" where
  "handle_general_faq open_at_init message =
     (let message_lower = py_lower message;
          category_scores =
            fold (\<lambda>(category, keywords, resp) scores.
                    if keyword_score keywords message_lower > 0
                    then AList.update category (keyword_score keywords message_lower) scores
                    else scores)
                 (faqs open_at_init) []
      in case category_scores of
           [] \<Rightarrow> Returns HelpInfo
         | kv # kvs \<Rightarrow>
             (case map_of (faqs open_at_init) (fst (py_max_from kv kvs)) of
                None \<Rightarrow> Raises
              | Some (keywords, resp) \<Rightarrow> Returns resp))"

text \<open>\<open>FAQAgent.handle_message\<close>.\<close>

definition faq_handle_message :: "bool \<Rightarrow> env \<Rightarrow> Intent \<Rightarrow> string \<Rightarrow> response" where
  "faq_handle_message open_at_init e i message =
     (case (if i = FAQ_HOURS then Returns (get_business_hours_response e)
            else if i = FAQ_CONTACT then Returns ContactInfo
            else if i = HELP then Returns HelpInfo
            else if i = FAQ_GENERAL then handle_general_faq open_at_init message
            else Returns HelpInfo) of
        Returns r \<Rightarrow> r
      | Raises \<Rightarrow> FaqError)"

section \<open>Reject agent: responses (agents/reject_agent.py)\<close>

text \<open>\<open>_get_rejection_response\<close> picks one of five texts by the rejection type.\<close>

definition get_rejection_response :: "string \<Rightarrow> response" where
  "get_rejection_response rejection_type =
     (if rejection_type = ''not_interested'' then Rejection ''not_interested''
      else if rejection_type = ''too_expensive'' then Rejection ''too_expensive''
      else if rejection_type = ''wrong_timing'' then Rejection ''wrong_timing''
      else if rejection_type = ''need_to_think'' then Rejection ''need_to_think''
      else Rejection ''general_no'')"

text \<open>\<open>RejectAgent.handle_message\<close>; nothing in its \<open>try\<close> raises.\<close>

definition reject_handle_message :: "string \<Rightarrow> response" where
  "reject_handle_message message = get_rejection_response (analyze_rejection message)"

section \<open>Manager agent (agents/manager_agent.py)\<close>

definition handle_greeting ::
  "'db database_service \<Rightarrow> string \<Rightarrow> 'db agent_state \<Rightarrow> reply outcome \<times> 'db agent_state" where
  "handle_greeting svc sender_number st =
     call (with_db (svc_get_customer svc sender_number) st) (\<lambda>customer st1.
       case customer of
         None \<Rightarrow> (Returns (Some GreetingNew), st1)
       | Some c \<Rightarrow>
           (case c_name c of
              None \<Rightarrow> (Returns (Some GreetingNew), st1)
            | Some n \<Rightarrow> if n \<noteq> [] then (Returns (Some (GreetingReturning n)), st1)
                        else (Returns (Some GreetingNew), st1)))"

definition handle_unknown_intent :: "string \<Rightarrow> response" where
  "handle_unknown_intent message =
     (let message_lower = py_lower message in
      if any_in [''price'', ''cost'', ''how much''] message_lower then PricingInfo
      else if any_in [''delivery'', ''shipping'', ''when''] message_lower then DeliveryHint
      else UnknownMenu)"

text \<open>\<open>ManagerAgent._route_to_agent\<close>.\<close>

definition route_to_agent ::
  "'db database_service \<Rightarrow> bool \<Rightarrow> env \<Rightarrow> Intent \<Rightarrow> string \<Rightarrow> string \<Rightarrow> parsed_message
     \<Rightarrow> 'db agent_state \<Rightarrow> reply outcome \<times> 'db agent_state" where
  "route_to_agent svc open_at_init e i message sender_number parsed st =
     try_except
       (if i \<in> set [ORDER_CREATE, ORDER_STATUS, ORDER_CANCEL] then
          order_handle_message svc e i message sender_number parsed st
        else if i \<in> set [FAQ_GENERAL, FAQ_HOURS, FAQ_CONTACT, HELP] then
          (Returns (Some (faq_handle_message open_at_init e i message)), st)
        else if i = REJECT_RESPONSE then
          (Returns (Some (reject_handle_message message)), st)
        else if i = GREETING then
          handle_greeting svc sender_number st
        else
          (Returns (Some (handle_unknown_intent message)), st))
       (\<lambda>s. (Returns (Some RouterError), s))"

section \<open>Notions of the specification\<close>

text \<open>The text strictly between the first and the second colon of a line (up to the end
  of the line when there is no second colon).\<close>

definition between_first_two_colons :: "string \<Rightarrow> string" where
  "between_first_two_colons line =
     takeWhile (\<lambda>c. c \<noteq> CHR '':'') (tl (dropWhile (\<lambda>c. c \<noteq> CHR '':'') line))"

text \<open>A non-empty run of decimal digits.\<close>

definition digit_group :: "string \<Rightarrow> bool" where
  "digit_group s = (s \<noteq> [] \<and> list_all (\<lambda>c. c \<in> set digit_chars) s)"

text \<open>The score of every entry of the intent table, in table order.\<close>

definition table_scores :: "string \<Rightarrow> (Intent \<times> nat) list" where
  "table_scores m = map (\<lambda>(k, ps). (k, intent_score ps m)) intent_patterns"

text \<open>The shape \<open>ORD-[A-Z0-9]{8}\<close>: the prefix \<open>ORD-\<close> and exactly eight characters, each
  an upper-case letter or a digit.\<close>

definition ord_id_format :: "string \<Rightarrow> bool" where
  "ord_id_format s =
     (take 4 s = ''ORD-'' \<and> length s = 12 \<and>
      list_all (\<lambda>c. c \<in> set (upper_chars @ digit_chars)) (drop 4 s))"

text \<open>Every order of the second database was in the first or has an id of the shape
  \<open>ORD-[A-Z0-9]{8}\<close>.\<close>

definition ids_ok :: "db_state \<Rightarrow> db_state \<Rightarrow> bool" where
  "ids_ok d d' =
     list_all (\<lambda>oid. dict_has (orders d) oid \<or> ord_id_format oid) (map fst (orders d'))"

text \<open>The keys of the record that \<open>extract_order_details\<close> fills.\<close>

definition detail_keys :: "string list" where
  "detail_keys = [''product'', ''quantity'', ''customer_name'', ''customer_phone'', ''address'', ''notes'']"

text \<open>Delivering a message of a sender to the order-creation handler, and the run of
  the specification: a guided session is started for the sender, then the four answers
  are delivered in sequence.\<close>

definition deliver ::
  "'db database_service \<Rightarrow> env \<Rightarrow> string \<Rightarrow> string \<Rightarrow> 'db agent_state \<Rightarrow> 'db agent_state" where
  "deliver svc e sender_number message st =
     snd (handle_order_creation svc e message sender_number (parse_message message) st)"

definition four_answers ::
  "'db database_service \<Rightarrow> env \<Rightarrow> env \<Rightarrow> string \<Rightarrow> string \<Rightarrow> 'db agent_state
     \<Rightarrow> 'db agent_state" where
  "four_answers svc e0 e sender_number first_message st =
     deliver svc e sender_number ''1 Main St''
       (deliver svc e sender_number ''555-0123''
          (deliver svc e sender_number ''Jane Doe''
             (deliver svc e sender_number ''Laptop''
                (snd (start_guided_order_creation e0 first_message sender_number st)))))"

text \<open>The steps that the order agent ever stores in a session.\<close>

definition wizard_steps :: "string list" where
  "wizard_steps = [''product'', ''name'', ''phone'', ''address'']"

definition wf_sessions :: "'db agent_state \<Rightarrow> bool" where
  "wf_sessions st = list_all (\<lambda>kv. step (snd kv) \<in> set wizard_steps) (pending_orders st)"

text \<open>A handler's result that is a text or an exception, never \<open>None\<close>, with
  well-formed sessions; and one that is a text.\<close>

definition safe_result :: "reply outcome \<times> 'db agent_state \<Rightarrow> bool" where
  "safe_result res =
     ((case fst res of Raises \<Rightarrow> True | Returns None \<Rightarrow> False | Returns (Some r) \<Rightarrow> True) \<and>
      wf_sessions (snd res))"

definition text_result :: "reply outcome \<times> 'db agent_state \<Rightarrow> bool" where
  "text_result res =
     ((case fst res of Raises \<Rightarrow> False | Returns None \<Rightarrow> False | Returns (Some r) \<Rightarrow> True) \<and>
      wf_sessions (snd res))"

section \<open>Concrete states for the examples\<close>

definition empty_db :: db_state where
  "empty_db = \<lparr> customers = [], orders = [], sql_clock = 0, py_clock = 0, faults = [] \<rparr>"

definition fresh_state :: "db_state agent_state" where
  "fresh_state = \<lparr> pending_orders = [], database = empty_db \<rparr>"

definition env1 :: env where
  "env1 = \<lparr> env_now = 1000000, env_weekday = 0, env_hour = 10,
            env_uuid4 = 0xc1675208e3b946dea75b96a9faf81b63 \<rparr>"

text \<open>A message with the labels \<open>product\<close>, \<open>phone\<close> and \<open>address\<close> and no name.\<close>

definition order_without_name :: string where
  "order_without_name =
     ''I want to order'' @ [CHR 0x0A] @ ''product: laptop'' @ [CHR 0x0A] @
     ''phone: 555-0123'' @ [CHR 0x0A] @ ''address: 1 Main St''"

text \<open>A database service that raises on every call, as a mock set up to fail does.\<close>

definition failing_service :: "db_state database_service" where
  "failing_service =
     \<lparr> svc_get_customer = (\<lambda>phone d. (Raises, d)),
       svc_create_customer = (\<lambda>phone name metadata d. (Raises, d)),
       svc_create_order = (\<lambda>order_id phone product quantity details d. (Raises, d)),
       svc_get_order = (\<lambda>order_id d. (Raises, d)),
       svc_get_customer_orders = (\<lambda>phone d. (Raises, d)),
       svc_cancel_order = (\<lambda>order_id reason d. (Raises, d)) \<rparr>"

text \<open>A database with a delivered order, an order created more than a day before the
  clock reading, and an order created a second before it.\<close>

definition sample_order :: "string \<Rightarrow> string \<Rightarrow> int \<Rightarrow> order" where
  "sample_order oid st t =
     \<lparr> o_order_id = oid, o_customer_phone = ''+15550001'', o_product = ''Laptop'',
       o_quantity = 1, o_status = st, o_details = [(''created_via'', JStr ''whatsapp'')],
       o_created_at = Naive t, o_updated_at = Naive t \<rparr>"

definition cancel_db :: "bool list \<Rightarrow> db_state" where
  "cancel_db fs =
     \<lparr> customers = [],
       orders = [(''ORD-1'', sample_order ''ORD-1'' ''delivered'' 99999000000),
                 (''ORD-2'', sample_order ''ORD-2'' ''pending'' 0),
                 (''ORD-3'', sample_order ''ORD-3'' ''pending'' 99999000000)],
       sql_clock = 100000000000, py_clock = 100000000000, faults = fs \<rparr>"

text \<open>A state in which one sender is at the last step of a guided order.\<close>

definition address_state :: "db_state agent_state" where
  "address_state =
     \<lparr> pending_orders =
         [(''+15550001'',
           \<lparr> step = ''address'',
             data = [(''product'', ''Laptop''), (''customer_name'', ''Jane Doe''),
                     (''customer_phone'', ''555-0123'')],
             started_at = 0 \<rparr>)],
       database = empty_db \<rparr>"

text \<open>A state in which one sender has just started a guided order.\<close>

definition product_state :: "db_state agent_state" where
  "product_state =
     \<lparr> pending_orders = [(''+15550001'', \<lparr> step = ''product'', data = [], started_at = 0 \<rparr>)],
       database = empty_db \<rparr>"

text \<open>
  A host eight hours west of UTC: SQLite's \<open>CURRENT_TIMESTAMP\<close> reads UTC, Python's
  \<open>datetime.now()\<close> reads local time, eight hours less. An order is created at
  reading 0 of the UTC clock; thirty hours later both clocks have moved on by thirty
  hours.
\<close>

definition hours :: "int \<Rightarrow> int" where
  "hours n = n * 3600000000"

definition west_of_utc_at :: "int \<Rightarrow> db_state \<Rightarrow> db_state" where
  "west_of_utc_at t d = d\<lparr>sql_clock := t, py_clock := t - hours 8\<rparr>"

definition order_at_creation :: db_state where
  "order_at_creation =
     snd (create_order ''ORD-C1675208'' ''+15550001'' ''Laptop'' 1 None
            (west_of_utc_at 0 empty_db))"

definition thirty_hours_later :: db_state where
  "thirty_hours_later = west_of_utc_at (hours 30) order_at_creation"

section \<open>Facts about the string primitives\<close>

lemma starts_with_iff: "starts_with p s \<longleftrightarrow> (\<exists>b. s = p @ b)"
  by (induction p s rule: starts_with.induct) auto

lemma py_in_iff: "py_in p s \<longleftrightarrow> (\<exists>a b. s = a @ p @ b)"
proof (induction s)
  case Nil
  then show ?case by auto
next
  case (Cons c cs)
  show ?case
  proof
    assume "py_in p (c # cs)"
    then consider "starts_with p (c # cs)" | "py_in p cs" by auto
    then show "\<exists>a b. c # cs = a @ p @ b"
    proof cases
      case 1
      then obtain b where "c # cs = p @ b" by (auto simp: starts_with_iff)
      then have "c # cs = [] @ p @ b" by simp
      then show ?thesis by blast
    next
      case 2
      then obtain a b where "cs = a @ p @ b" using Cons.IH by auto
      then have "c # cs = (c # a) @ p @ b" by simp
      then show ?thesis by blast
    qed
  next
    assume "\<exists>a b. c # cs = a @ p @ b"
    then obtain a b where ab: "c # cs = a @ p @ b" by auto
    show "py_in p (c # cs)"
    proof (cases a)
      case Nil
      then have "starts_with p (c # cs)" using ab by (simp add: starts_with_iff)
      then show ?thesis by simp
    next
      case (Cons x xs)
      then have "cs = xs @ p @ b" using ab by simp
      then show ?thesis using Cons.IH by auto
    qed
  qed
qed

lemma py_in_lower: "py_in p s \<Longrightarrow> py_in (py_lower p) (py_lower s)"
proof -
  assume "py_in p s"
  then obtain a b where "s = a @ p @ b" by (auto simp: py_in_iff)
  then have "py_lower s = py_lower a @ py_lower p @ py_lower b"
    by (simp add: py_lower_def)
  then show ?thesis unfolding py_in_iff by blast
qed

lemma any_in_member: "p \<in> set ps \<Longrightarrow> py_in p s \<Longrightarrow> any_in ps s"
  by (auto simp: any_in_def list_ex_iff)

section \<open>Facts about the matcher\<close>


lemma rmatch_Cls:
  "st' \<in> set (rmatch (Cls cs) st) \<Longrightarrow>
   \<exists>x. fst (snd st) = x # fst (snd st') \<and> cls_match cs x \<and> snd (snd st') = snd (snd st)"
  by (cases st; cases "fst (snd st)") (auto split: if_splits)

lemma rmatch_Star_Cls:
  "st' \<in> set (rmatch (Star (Cls cs)) st) \<Longrightarrow>
   \<exists>d. fst (snd st) = d @ fst (snd st') \<and> list_all (cls_match cs) d \<and>
       snd (snd st') = snd (snd st)"
proof (induction "length (fst (snd st))" arbitrary: st rule: less_induct)
  case less
  from less.prems have
    "st' = st \<or> (\<exists>st1 \<in> set (rmatch (Cls cs) st).
        length (fst (snd st1)) < length (fst (snd st)) \<and> st' \<in> set (rmatch (Star (Cls cs)) st1))"
    by (subst (asm) rmatch.simps(11)) auto
  then show ?case
  proof
    assume "st' = st"
    then show ?thesis by simp
  next
    assume "\<exists>st1 \<in> set (rmatch (Cls cs) st).
        length (fst (snd st1)) < length (fst (snd st)) \<and> st' \<in> set (rmatch (Star (Cls cs)) st1)"
    then obtain st1 where st1: "st1 \<in> set (rmatch (Cls cs) st)"
      "length (fst (snd st1)) < length (fst (snd st))" "st' \<in> set (rmatch (Star (Cls cs)) st1)"
      by blast
    from rmatch_Cls [OF st1(1)] obtain x where
      x: "fst (snd st) = x # fst (snd st1)" "cls_match cs x" "snd (snd st1) = snd (snd st)"
      by blast
    from less.hyps [OF st1(2) st1(3)] obtain d where
      d: "fst (snd st1) = d @ fst (snd st')" "list_all (cls_match cs) d"
         "snd (snd st') = snd (snd st1)"
      by blast
    have "fst (snd st) = (x # d) @ fst (snd st')" using x d by simp
    moreover have "list_all (cls_match cs) (x # d)" using x d by simp
    ultimately show ?thesis using x d by metis
  qed
qed

lemma rmatch_plus_Cls:
  assumes "st' \<in> set (rmatch (re_plus (Cls cs)) st)"
  shows "\<exists>d. d \<noteq> [] \<and> fst (snd st) = d @ fst (snd st') \<and> list_all (cls_match cs) d"
proof -
  from assms obtain st1 where st1: "st1 \<in> set (rmatch (Cls cs) st)"
    "st' \<in> set (rmatch (Star (Cls cs)) st1)"
    by (auto simp: re_plus_def)
  from rmatch_Cls [OF st1(1)] obtain x where
    x: "fst (snd st) = x # fst (snd st1)" "cls_match cs x" by blast
  from rmatch_Star_Cls [OF st1(2)] obtain d where
    d: "fst (snd st1) = d @ fst (snd st')" "list_all (cls_match cs) d" by blast
  have "fst (snd st) = (x # d) @ fst (snd st')" using x d by simp
  moreover have "list_all (cls_match cs) (x # d)" using x d by simp
  ultimately show ?thesis by blast
qed

lemma lower_char_cases: "lower_char x = x \<or> lower_char x \<in> set lower_chars"
proof (cases "map_of (zip upper_chars lower_chars) x")
  case None
  then show ?thesis by (simp add: lower_char_def)
next
  case (Some d)
  then have "(x, d) \<in> set (zip upper_chars lower_chars)" by (rule map_of_SomeD)
  then have "d \<in> set lower_chars" by (rule set_zip_rightD)
  then show ?thesis using Some by (simp add: lower_char_def)
qed

lemma upper_char_cases: "upper_char x = x \<or> upper_char x \<in> set upper_chars"
proof (cases "map_of (zip lower_chars upper_chars) x")
  case None
  then show ?thesis by (simp add: upper_char_def)
next
  case (Some d)
  then have "(x, d) \<in> set (zip lower_chars upper_chars)" by (rule map_of_SomeD)
  then have "d \<in> set upper_chars" by (rule set_zip_rightD)
  then show ?thesis using Some by (simp add: upper_char_def)
qed

lemma letters_not_digits:
  "c \<in> set lower_chars \<Longrightarrow> c \<notin> set digit_chars"
  "c \<in> set upper_chars \<Longrightarrow> c \<notin> set digit_chars"
  by (auto simp: lower_chars_def upper_chars_def digit_chars_def)

lemma cls_match_digit: "cls_match digit_chars x \<Longrightarrow> x \<in> set digit_chars"
  using lower_char_cases [of x] upper_char_cases [of x] letters_not_digits
  unfolding cls_match_def by metis

lemma rmatch_digit_group:
  assumes "st' \<in> set (rmatch (Grp k (re_plus cls_digit)) st)"
  shows "digit_group (group_text (snd (snd st')) k)"
proof -
  from assms obtain st1 where st1: "st1 \<in> set (rmatch (re_plus cls_digit) st)"
    "st' = set_group k (fst (snd st)) st1" by auto
  from rmatch_plus_Cls [OF st1(1) [unfolded cls_digit_def]] obtain d where
    d: "d \<noteq> []" "fst (snd st) = d @ fst (snd st1)" "list_all (cls_match digit_chars) d"
    by blast
  have "group_text (snd (snd st')) k = d"
    using st1(2) d(2) by (cases st1) (simp add: set_group_def group_text_def update_conv')
  moreover have "list_all (\<lambda>c. c \<in> set digit_chars) d"
    using d(3) cls_match_digit by (simp add: list_all_iff)
  ultimately show ?thesis using d(1) by (simp add: digit_group_def)
qed

lemma rmatch_WordB: "st' \<in> set (rmatch WordB st) \<Longrightarrow> st' = st"
  by (cases st) (auto split: if_splits)

lemma rmatch_SeqD:
  "st' \<in> set (rmatch (Seq a b) st) \<Longrightarrow> \<exists>st1. st1 \<in> set (rmatch a st) \<and> st' \<in> set (rmatch b st1)"
  by auto

lemma order_id_pattern_shape:
  "order_id_pattern =
     Seq WordB (Seq (Grp 1 (alts [lit ''ord'', lit ''order'']))
       (Seq (Star (Cls (''-'' @ space_chars))) (Seq (Grp 2 (re_plus cls_digit)) WordB)))"
  by (simp add: order_id_pattern_def)

lemma order_id_pattern_group:
  assumes "st' \<in> set (rmatch order_id_pattern st)"
  shows "digit_group (group_text (snd (snd st')) 2)"
proof -
  from assms obtain s1 where
    "st' \<in> set (rmatch (Seq (Grp 1 (alts [lit ''ord'', lit ''order'']))
       (Seq (Star (Cls (''-'' @ space_chars))) (Seq (Grp 2 (re_plus cls_digit)) WordB))) s1)"
    unfolding order_id_pattern_shape by (blast dest: rmatch_SeqD)
  then obtain s2 where
    "st' \<in> set (rmatch (Seq (Star (Cls (''-'' @ space_chars)))
                      (Seq (Grp 2 (re_plus cls_digit)) WordB)) s2)"
    by (blast dest: rmatch_SeqD)
  then obtain s3 where "st' \<in> set (rmatch (Seq (Grp 2 (re_plus cls_digit)) WordB) s3)"
    by (blast dest: rmatch_SeqD)
  then obtain s4 where "s4 \<in> set (rmatch (Grp 2 (re_plus cls_digit)) s3)"
    "st' \<in> set (rmatch WordB s4)"
    by (blast dest: rmatch_SeqD)
  then show ?thesis using rmatch_digit_group rmatch_WordB by blast
qed

lemma ngroups_order_id: "ngroups order_id_pattern = 2"
  by (simp add: order_id_pattern_def lit_def re_plus_def cls_digit_def)

lemma find_from_order_id:
  "m \<in> set (find_from order_id_pattern p s) \<Longrightarrow> digit_group (order_id_of_match m)"
proof (induction order_id_pattern p s rule: find_from.induct)
  case (1 p s)
  show ?case
  proof (cases "rmatch order_id_pattern (p, s, [])")
    case Nil
    from "1.prems" Nil obtain x xs where "s = x # xs"
      "m \<in> set (find_from order_id_pattern (Some x) xs)"
      by (subst (asm) find_from.simps) (auto split: list.splits)
    then show ?thesis using "1.hyps"(1) Nil by blast
  next
    case (Cons st sts)
    then have st: "st \<in> set (rmatch order_id_pattern (p, s, []))" by simp
    have mv: "digit_group (order_id_of_match (match_value order_id_pattern s st))"
      using order_id_pattern_group [OF st]
      by (cases st) (simp add: match_value_def ngroups_order_id order_id_of_match_def)
    from "1.prems" Cons consider
        "m = match_value order_id_pattern s st"
      | "length (fst (snd st)) < length s" "m \<in> set (find_from order_id_pattern (fst st) (fst (snd st)))"
      | x xs where "\<not> length (fst (snd st)) < length s" "s = x # xs"
          "m \<in> set (find_from order_id_pattern (Some x) xs)"
      by (subst (asm) find_from.simps) (auto split: if_splits list.splits)
    then show ?thesis
    proof cases
      case 1
      then show ?thesis using mv by simp
    next
      case 2
      then show ?thesis using "1.hyps"(2) Cons by blast
    next
      case 3
      then show ?thesis using "1.hyps"(3) Cons by blast
    qed
  qed
qed

section \<open>Structured order details\<close>

lemma py_split_nonempty: "py_split sep s \<noteq> []"
  by (induction s) (auto split: list.splits)

lemma py_split_hd: "hd (py_split sep s) = takeWhile (\<lambda>c. c \<noteq> sep) s"
  by (induction s) (auto split: list.splits simp: py_split_nonempty)

lemma py_split_second:
  "sep \<in> set s \<Longrightarrow>
   list_item (py_split sep s) 1 =
     Returns (takeWhile (\<lambda>c. c \<noteq> sep) (tl (dropWhile (\<lambda>c. c \<noteq> sep) s)))"
proof (induction s)
  case Nil
  then show ?case by simp
next
  case (Cons c cs)
  show ?case
  proof (cases "c = sep")
    case True
    have "py_split sep cs \<noteq> []" by (rule py_split_nonempty)
    then obtain p ps where ps: "py_split sep cs = p # ps" by (cases "py_split sep cs") auto
    have "p = takeWhile (\<lambda>c. c \<noteq> sep) cs" using py_split_hd [of sep cs] ps by simp
    then show ?thesis using True ps by (simp add: list_item_def)
  next
    case False
    then have in_cs: "sep \<in> set cs" using Cons.prems by auto
    have "py_split sep cs \<noteq> []" by (rule py_split_nonempty)
    then obtain p ps where ps: "py_split sep cs = p # ps" by (cases "py_split sep cs") auto
    have "list_item (py_split sep (c # cs)) 1 = list_item (py_split sep cs) 1"
      using False ps by (simp add: list_item_def)
    then show ?thesis using Cons.IH [OF in_cs] False by simp
  qed
qed

lemma lower_char_colon: "lower_char c = CHR '':'' \<Longrightarrow> c = CHR '':''"
  by (simp add: lower_char_def upper_chars_def lower_chars_def split: if_splits)

lemma set_py_strip: "set (py_strip s) \<subseteq> set s"
proof -
  have "set (py_strip s) \<subseteq> set (rev (dropWhile is_space s))"
    unfolding py_strip_def using set_dropWhileD by fastforce
  also have "\<dots> \<subseteq> set s" using set_dropWhileD by fastforce
  finally show ?thesis .
qed

lemma label_has_colon:
  assumes "py_in (l @ '':'') (py_lower (py_strip line))"
  shows "CHR '':'' \<in> set line"
proof -
  from assms obtain a b where "py_lower (py_strip line) = a @ (l @ '':'') @ b"
    by (auto simp: py_in_iff)
  then have "CHR '':'' \<in> set (py_lower (py_strip line))" by simp
  then obtain c where c: "c \<in> set (py_strip line)" "lower_char c = CHR '':''"
    by (auto simp: py_lower_def)
  then have "c = CHR '':''" by (simp add: lower_char_colon)
  then show ?thesis using c set_py_strip by auto
qed

lemma labelled_value_between:
  assumes "py_in (l @ '':'') (py_lower (py_strip line))"
  shows "labelled_value line = Returns (py_strip (between_first_two_colons line))"
  using py_split_second [OF label_has_colon [OF assms]]
  by (simp add: labelled_value_def between_first_two_colons_def)

lemma update_detail_keys:
  "map fst d = detail_keys \<Longrightarrow> k \<in> set detail_keys \<Longrightarrow> map fst (AList.update k v d) = detail_keys"
  by (simp add: update_keys)

lemma dict_item_notes:
  "map fst d = detail_keys \<Longrightarrow> \<exists>n. dict_item d ''notes'' = Returns n"
proof -
  assume a: "map fst d = detail_keys"
  have "''notes'' \<in> set (map fst d)" using a by (simp add: detail_keys_def)
  then have "''notes'' \<in> fst ` set d" by simp
  then have "map_of d ''notes'' \<noteq> None" by (simp add: map_of_eq_None_iff)
  then obtain n where "map_of d ''notes'' = Some n" by blast
  then show ?thesis by (simp add: dict_item_def)
qed


lemma process_line_total:
  assumes "map fst d = detail_keys"
  shows "\<exists>d'. process_line line d = Returns d' \<and> map fst d' = detail_keys"
proof -
  let ?l = "py_lower (py_strip line)"
  note upd = update_detail_keys [OF assms]
  from dict_item_notes [OF assms] obtain n where n: "dict_item d ''notes'' = Returns n" by blast
  consider (name) "py_in ''name:'' ?l"
    | (phone) "\<not> py_in ''name:'' ?l" "py_in ''phone:'' ?l"
    | (address) "\<not> py_in ''name:'' ?l" "\<not> py_in ''phone:'' ?l" "py_in ''address:'' ?l"
    | (other) "\<not> py_in ''name:'' ?l" "\<not> py_in ''phone:'' ?l" "\<not> py_in ''address:'' ?l"
    by blast
  then show ?thesis
  proof cases
    case name
    have "labelled_value line = Returns (py_strip (between_first_two_colons line))"
      using labelled_value_between [of "''name''" line] name by simp
    moreover have "map fst (AList.update ''customer_name'' v d) = detail_keys" for v
      by (rule upd) (simp add: detail_keys_def)
    ultimately show ?thesis using name by (simp add: process_line_def Let_def)
  next
    case phone
    have "labelled_value line = Returns (py_strip (between_first_two_colons line))"
      using labelled_value_between [of "''phone''" line] phone by simp
    moreover have "map fst (AList.update ''customer_phone'' v d) = detail_keys" for v
      by (rule upd) (simp add: detail_keys_def)
    ultimately show ?thesis using phone by (simp add: process_line_def Let_def)
  next
    case address
    have "labelled_value line = Returns (py_strip (between_first_two_colons line))"
      using labelled_value_between [of "''address''" line] address by simp
    moreover have "map fst (AList.update ''address'' v d) = detail_keys" for v
      by (rule upd) (simp add: detail_keys_def)
    ultimately show ?thesis using address by (simp add: process_line_def Let_def)
  next
    case other
    have q: "map fst (AList.update ''quantity'' v d) = detail_keys" for v
      by (rule upd) (simp add: detail_keys_def)
    have p: "map fst (AList.update ''product'' v d) = detail_keys" for v
      by (rule upd) (simp add: detail_keys_def)
    have o: "map fst (AList.update ''notes'' v d) = detail_keys" for v
      by (rule upd) (simp add: detail_keys_def)
    show ?thesis using other n q p o assms
      by (simp add: process_line_def Let_def split: option.splits)
  qed
qed

lemma process_lines_total:
  "map fst d = detail_keys \<Longrightarrow>
   \<exists>d'. process_lines ls d = Returns d' \<and> map fst d' = detail_keys"
proof (induction ls arbitrary: d)
  case Nil
  then show ?case by simp
next
  case (Cons l ls)
  from process_line_total [OF Cons.prems] obtain d1 where
    "process_line l d = Returns d1" "map fst d1 = detail_keys" by blast
  then show ?case using Cons.IH [of d1] by simp
qed

lemma extract_order_details_total:
  "\<exists>d. extract_order_details m = Returns d \<and> map fst d = detail_keys"
proof -
  have "map fst initial_order_details = detail_keys"
    by (simp add: initial_order_details_def detail_keys_def)
  from process_lines_total [OF this] obtain d1 where
    d1: "process_lines (py_split CHR 0x0A (py_strip m)) initial_order_details = Returns d1"
    "map fst d1 = detail_keys" by blast
  from dict_item_notes [OF d1(2)] obtain n where n: "dict_item d1 ''notes'' = Returns n" by blast
  have "''notes'' \<in> set detail_keys" by (simp add: detail_keys_def)
  then show ?thesis using d1 n update_detail_keys [OF d1(2)]
    by (simp add: extract_order_details_def)
qed

lemma unknown_default_never_used:
  assumes "extract_order_details m = Returns d"
  shows "dict_get d ''customer_name'' ''Unknown'' = dict_get d ''customer_name'' []"
proof -
  from extract_order_details_total [of m] assms have "map fst d = detail_keys" by auto
  then have "''customer_name'' \<in> set (map fst d)" by (simp add: detail_keys_def)
  then have "''customer_name'' \<in> fst ` set d" by simp
  then have "map_of d ''customer_name'' \<noteq> None" by (simp add: map_of_eq_None_iff)
  then obtain n where "map_of d ''customer_name'' = Some n" by blast
  then show ?thesis by (simp add: dict_get_def)
qed

text \<open>
  Claim C10. In \<open>extract_order_details\<close>, a line with a \<open>name:\<close>, \<open>phone:\<close> or
  \<open>address:\<close> label stores, in the field of the first of these labels that the line
  contains, the whitespace-trimmed text strictly between the first and the second colon
  of the line; text behind a second colon is dropped. The message
  "Address: 1 Main St: Apt 2" yields the address "1 Main St".
\<close>

theorem labelled_line_value:
  "(py_in ''name:'' (py_lower (py_strip line)) \<longrightarrow>
      process_line line d =
        Returns (AList.update ''customer_name'' (py_strip (between_first_two_colons line)) d)) \<and>
   (\<not> py_in ''name:'' (py_lower (py_strip line)) \<and>
    py_in ''phone:'' (py_lower (py_strip line)) \<longrightarrow>
      process_line line d =
        Returns (AList.update ''customer_phone'' (py_strip (between_first_two_colons line)) d)) \<and>
   (\<not> py_in ''name:'' (py_lower (py_strip line)) \<and>
    \<not> py_in ''phone:'' (py_lower (py_strip line)) \<and>
    py_in ''address:'' (py_lower (py_strip line)) \<longrightarrow>
      process_line line d =
        Returns (AList.update ''address'' (py_strip (between_first_two_colons line)) d)) \<and>
   extract_order_details ''Address: 1 Main St: Apt 2'' =
     Returns [(''product'', ''''), (''quantity'', ''1''), (''customer_name'', ''''),
              (''customer_phone'', ''''), (''address'', ''1 Main St''), (''notes'', '''')]"
proof -
  have n: "process_line line d =
        Returns (AList.update ''customer_name'' (py_strip (between_first_two_colons line)) d)"
    if "py_in ''name:'' (py_lower (py_strip line))"
    using that labelled_value_between [of "''name''" line]
    by (simp add: process_line_def Let_def)
  have p: "process_line line d =
        Returns (AList.update ''customer_phone'' (py_strip (between_first_two_colons line)) d)"
    if "\<not> py_in ''name:'' (py_lower (py_strip line))" "py_in ''phone:'' (py_lower (py_strip line))"
    using that labelled_value_between [of "''phone''" line]
    by (simp add: process_line_def Let_def)
  have a: "process_line line d =
        Returns (AList.update ''address'' (py_strip (between_first_two_colons line)) d)"
    if "\<not> py_in ''name:'' (py_lower (py_strip line))" "\<not> py_in ''phone:'' (py_lower (py_strip line))"
       "py_in ''address:'' (py_lower (py_strip line))"
    using that labelled_value_between [of "''address''" line]
    by (simp add: process_line_def Let_def)
  have e: "extract_order_details ''Address: 1 Main St: Apt 2'' =
     Returns [(''product'', ''''), (''quantity'', ''1''), (''customer_name'', ''''),
              (''customer_phone'', ''''), (''address'', ''1 Main St''), (''notes'', '''')]"
    by code_simp
  show ?thesis using n p a e by blast
qed

theorem labelled_line_value_witness:
  "py_in ''name:'' (py_lower (py_strip ''Name: Jane Doe: Jr'')) \<and>
   process_line ''Name: Jane Doe: Jr'' initial_order_details =
     Returns (AList.update ''customer_name'' ''Jane Doe'' initial_order_details) \<and>
   \<not> py_in ''name:'' (py_lower (py_strip '' phone: 555-0123 : home'')) \<and>
   py_in ''phone:'' (py_lower (py_strip '' phone: 555-0123 : home'')) \<and>
   process_line '' phone: 555-0123 : home'' initial_order_details =
     Returns (AList.update ''customer_phone'' ''555-0123'' initial_order_details) \<and>
   \<not> py_in ''phone:'' (py_lower (py_strip ''Address: 1 Main St: Apt 2'')) \<and>
   py_in ''address:'' (py_lower (py_strip ''Address: 1 Main St: Apt 2'')) \<and>
   process_line ''Address: 1 Main St: Apt 2'' initial_order_details =
     Returns (AList.update ''address'' ''1 Main St'' initial_order_details) \<and>
   between_first_two_colons ''Address: 1 Main St: Apt 2'' = '' 1 Main St''"
  using labelled_line_value [of "''Name: Jane Doe: Jr''" initial_order_details]
        labelled_line_value [of "'' phone: 555-0123 : home''" initial_order_details]
        labelled_line_value [of "''Address: 1 Main St: Apt 2''" initial_order_details]
  by code_simp

section \<open>Entity extraction\<close>

lemma AList_update_other: "k \<noteq> k' \<Longrightarrow> map_of (AList.update k' v d) k = map_of d k"
  by (simp add: update_conv')

lemma extract_entities_order_id:
  "map_of (extract_entities m) ''order_id'' =
     (if re_findall order_id_pattern m = [] then None
      else Some (map order_id_of_match (re_findall order_id_pattern m)))"
  by (simp add: extract_entities_def entity_patterns_def Let_def update_conv')

text \<open>
  Claim C8. The \<open>order_id\<close> entry of the extracted entities lists, for every match of
  the order-id pattern in the order in which the scan from left to right finds them, the
  text of the digit group only (the second group; the "ord"/"order" prefix is the first
  group and is dropped), and the entry is absent when there is no match. Every listed
  value is a non-empty run of digits. For "order ORD-1234" the entry is ["1234"].
\<close>

theorem order_id_entity:
  "map_of (extract_entities m) ''order_id'' =
     (if re_findall order_id_pattern m = [] then None
      else Some (map order_id_of_match (re_findall order_id_pattern m))) \<and>
   list_all digit_group (dict_get (extract_entities m) ''order_id'' []) \<and>
   map_of (extract_entities ''order ORD-1234'') ''order_id'' = Some [''1234''] \<and>
   map_of (extract_entities ''order 12, ORDER - 7 and ord9'') ''order_id'' =
     Some [''12'', ''7'', ''9'']"
proof -
  have a: "map_of (extract_entities m) ''order_id'' =
     (if re_findall order_id_pattern m = [] then None
      else Some (map order_id_of_match (re_findall order_id_pattern m)))"
    by (rule extract_entities_order_id)
  have b: "list_all digit_group (dict_get (extract_entities m) ''order_id'' [])"
    using find_from_order_id
    by (auto simp: dict_get_def a list_all_iff re_findall_def)
  have c: "map_of (extract_entities ''order ORD-1234'') ''order_id'' = Some [''1234'']"
    by code_simp
  have d: "map_of (extract_entities ''order 12, ORDER - 7 and ord9'') ''order_id'' =
     Some [''12'', ''7'', ''9'']"
    by code_simp
  show ?thesis using a b c d by blast
qed

section \<open>Intent classification\<close>


lemma update_fresh: "k \<notin> fst ` set d \<Longrightarrow> AList.update k v d = d @ [(k, v)]"
  by (induction d) auto

lemma fold_scores:
  "distinct (map fst tbl) \<Longrightarrow> fst ` set tbl \<inter> fst ` set acc = {} \<Longrightarrow>
   fold (\<lambda>(k, ps) sc. if g ps > (0::nat) then AList.update k (g ps) sc else sc) tbl acc =
     acc @ filter (\<lambda>kv. snd kv > 0) (map (\<lambda>(k, ps). (k, g ps)) tbl)"
proof (induction tbl arbitrary: acc)
  case Nil
  then show ?case by simp
next
  case (Cons e tbl)
  obtain k ps where e: "e = (k, ps)" by (cases e)
  have fresh: "k \<notin> fst ` set acc" using Cons.prems(2) e by auto
  have d: "distinct (map fst tbl)" and knot: "k \<notin> fst ` set tbl" using Cons.prems(1) e by auto
  show ?case
  proof (cases "g ps > 0")
    case True
    have disj: "fst ` set tbl \<inter> fst ` set (acc @ [(k, g ps)]) = {}"
      using Cons.prems(2) knot by auto
    show ?thesis using True e Cons.IH [OF d disj] update_fresh [OF fresh] by simp
  next
    case False
    have disj: "fst ` set tbl \<inter> fst ` set acc = {}" using Cons.prems(2) by auto
    show ?thesis using False e Cons.IH [OF d disj] by simp
  qed
qed

lemma intent_patterns_distinct: "distinct (map fst intent_patterns)"
  by (simp add: intent_patterns_def)

lemma intent_scores_filter:
  "intent_scores m = filter (\<lambda>kv. snd kv > 0) (table_scores m)"
  unfolding intent_scores_def table_scores_def
  using fold_scores [OF intent_patterns_distinct, of "[]" "\<lambda>ps. intent_score ps m"] by simp

lemma py_max_from_first:
  "\<exists>pre r post. b # kvs = pre @ [r] @ post \<and> py_max_from b kvs = r \<and>
     (\<forall>x \<in> set pre. snd x < snd r) \<and> (\<forall>x \<in> set post. snd x \<le> snd r)"
proof (induction kvs arbitrary: b)
  case Nil
  have "[b] = [] @ [b] @ []" by simp
  then show ?case by fastforce
next
  case (Cons kv kvs)
  show ?case
  proof (cases "snd kv > snd b")
    case True
    from Cons.IH [of kv] obtain pre r post where
      h: "kv # kvs = pre @ [r] @ post" "py_max_from kv kvs = r"
         "\<forall>x \<in> set pre. snd x < snd r" "\<forall>x \<in> set post. snd x \<le> snd r" by blast
    have "kv \<in> set (pre @ [r] @ post)" using h(1) by (metis list.set_intros(1))
    then have "snd kv \<le> snd r" using h(3,4) by auto
    then have "snd b < snd r" using True by simp
    then have "\<forall>x \<in> set (b # pre). snd x < snd r" using h(3) by simp
    moreover have "b # kv # kvs = (b # pre) @ [r] @ post" using h(1) by simp
    moreover have "py_max_from b (kv # kvs) = r" using True h(2) by simp
    ultimately show ?thesis using h(4) by blast
  next
    case False
    from Cons.IH [of b] obtain pre r post where
      h: "b # kvs = pre @ [r] @ post" "py_max_from b kvs = r"
         "\<forall>x \<in> set pre. snd x < snd r" "\<forall>x \<in> set post. snd x \<le> snd r" by blast
    have res: "py_max_from b (kv # kvs) = r" using False h(2) by simp
    show ?thesis
    proof (cases pre)
      case Nil
      then have "r = b" "post = kvs" using h(1) by auto
      then have "b # kv # kvs = [] @ [r] @ (kv # post)" by simp
      moreover have "\<forall>x \<in> set (kv # post). snd x \<le> snd r"
        using False h(4) \<open>r = b\<close> by auto
      ultimately show ?thesis using res by (metis empty_iff list.set(1))
    next
      case (Cons p pre')
      then have pb: "p = b" "kvs = pre' @ [r] @ post" using h(1) by auto
      then have "snd b < snd r" using h(3) Cons by simp
      then have "snd kv < snd r" using False by simp
      then have "\<forall>x \<in> set (b # kv # pre'). snd x < snd r" using h(3) Cons pb by simp
      moreover have "b # kv # kvs = (b # kv # pre') @ [r] @ post" using pb by simp
      ultimately show ?thesis using res h(4) by blast
    qed
  qed
qed

lemma filter_decompose:
  "filter P xs = pre @ [r] @ post \<Longrightarrow>
   \<exists>pre' post'. xs = pre' @ [r] @ post' \<and> filter P pre' = pre \<and> filter P post' = post"
proof (induction xs arbitrary: pre)
  case Nil
  then show ?case by simp
next
  case (Cons x xs)
  show ?case
  proof (cases "P x")
    case False
    then have "filter P xs = pre @ [r] @ post" using Cons.prems by simp
    from Cons.IH [OF this] obtain pre' post' where
      "xs = pre' @ [r] @ post'" "filter P pre' = pre" "filter P post' = post" by blast
    then have "x # xs = (x # pre') @ [r] @ post'" "filter P (x # pre') = pre"
      using False by simp_all
    then show ?thesis using \<open>filter P post' = post\<close> by blast
  next
    case True
    then have eq: "x # filter P xs = pre @ [r] @ post" using Cons.prems by simp
    show ?thesis
    proof (cases pre)
      case Nil
      then have "x = r" "filter P xs = post" using eq by auto
      then have "x # xs = [] @ [r] @ xs" "filter P [] = pre" using Nil by simp_all
      then show ?thesis using \<open>filter P xs = post\<close> by blast
    next
      case (Cons p pre2)
      then have "p = x" "filter P xs = pre2 @ [r] @ post" using eq by auto
      from Cons.IH [OF this(2)] obtain pre' post' where
        h: "xs = pre' @ [r] @ post'" "filter P pre' = pre2" "filter P post' = post" by blast
      then have "x # xs = (x # pre') @ [r] @ post'" "filter P (x # pre') = pre"
        using True Cons \<open>p = x\<close> by simp_all
      then show ?thesis using h(3) by blast
    qed
  qed
qed

lemma table_scores_decompose:
  assumes "table_scores m = pre @ [r] @ post"
  shows "\<exists>tpre i ps tpost. intent_patterns = tpre @ [(i, ps)] @ tpost \<and>
           r = (i, intent_score ps m) \<and>
           pre = map (\<lambda>(k, ps). (k, intent_score ps m)) tpre \<and>
           post = map (\<lambda>(k, ps). (k, intent_score ps m)) tpost"
proof -
  let ?f = "\<lambda>(k, ps). (k, intent_score ps m)"
  from assms have "map ?f intent_patterns = pre @ ([r] @ post)"
    by (simp add: table_scores_def)
  then obtain tpre rest where 1: "intent_patterns = tpre @ rest" "map ?f tpre = pre"
    "map ?f rest = [r] @ post"
    by (auto simp: map_eq_append_conv)
  then obtain e tpost where 2: "rest = e # tpost" "?f e = r" "map ?f tpost = post"
    by (auto simp: map_eq_Cons_conv)
  obtain i ps where e: "e = (i, ps)" by (cases e)
  show ?thesis using 1 2 e by auto
qed

text \<open>
  Claim C4. When no pattern of any intent matches, classification returns \<open>UNKNOWN\<close>
  with confidence 0. Otherwise it returns the intent of a table entry whose score (the
  number of matches summed over its patterns) is positive, strictly greater than the
  score of every earlier entry and at least the score of every later entry, that is the
  first maximum in declaration order, with confidence \<open>min (score * 0.3) 1\<close>. The
  confidence always lies between 0 and 1.
\<close>

theorem detect_intent_first_maximum:
  "(list_all (\<lambda>(i, ps). intent_score ps m = 0) intent_patterns \<longrightarrow>
      detect_intent m = (UNKNOWN, 0)) \<and>
   (\<not> list_all (\<lambda>(i, ps). intent_score ps m = 0) intent_patterns \<longrightarrow>
      (\<exists>pre i ps post.
         intent_patterns = pre @ [(i, ps)] @ post \<and>
         detect_intent m = (i, min (of_nat (intent_score ps m) * (3 / 10)) 1) \<and>
         0 < intent_score ps m \<and>
         list_all (\<lambda>(j, qs). intent_score qs m < intent_score ps m) pre \<and>
         list_all (\<lambda>(j, qs). intent_score qs m \<le> intent_score ps m) post)) \<and>
   0 \<le> snd (detect_intent m) \<and> snd (detect_intent m) \<le> 1"
proof -
  let ?zero = "list_all (\<lambda>(i, ps). intent_score ps m = 0) intent_patterns"
  have empty_iff: "intent_scores m = [] \<longleftrightarrow> ?zero"
    by (auto simp: intent_scores_filter table_scores_def filter_empty_conv list_all_iff)
  have a: "detect_intent m = (UNKNOWN, 0)" if ?zero
    using that empty_iff by (simp add: detect_intent_def)
  have b: "\<exists>pre i ps post.
         intent_patterns = pre @ [(i, ps)] @ post \<and>
         detect_intent m = (i, min (of_nat (intent_score ps m) * (3 / 10)) 1) \<and>
         0 < intent_score ps m \<and>
         list_all (\<lambda>(j, qs). intent_score qs m < intent_score ps m) pre \<and>
         list_all (\<lambda>(j, qs). intent_score qs m \<le> intent_score ps m) post" if "\<not> ?zero"
  proof -
    from that empty_iff obtain kv kvs where kv: "intent_scores m = kv # kvs"
      by (cases "intent_scores m") auto
    from py_max_from_first [of kv kvs] obtain fpre r fpost where
      f: "kv # kvs = fpre @ [r] @ fpost" "py_max_from kv kvs = r"
         "\<forall>x \<in> set fpre. snd x < snd r" "\<forall>x \<in> set fpost. snd x \<le> snd r" by blast
    have "filter (\<lambda>kv. snd kv > 0) (table_scores m) = fpre @ [r] @ fpost"
      using kv f(1) by (simp add: intent_scores_filter)
    from filter_decompose [OF this] obtain pre' post' where
      d: "table_scores m = pre' @ [r] @ post'" "filter (\<lambda>kv. snd kv > 0) pre' = fpre"
         "filter (\<lambda>kv. snd kv > 0) post' = fpost" by blast
    have "r \<in> set (intent_scores m)" using kv f(1) by (metis in_set_conv_decomp append_Cons append_Nil)
    then have rpos: "0 < snd r" by (simp add: intent_scores_filter)
    have lt: "\<forall>x \<in> set pre'. snd x < snd r"
    proof
      fix x assume x: "x \<in> set pre'"
      show "snd x < snd r"
      proof (cases "snd x > 0")
        case True
        then have "x \<in> set fpre" using x d(2) by auto
        then show ?thesis using f(3) by blast
      next
        case False
        then show ?thesis using rpos by simp
      qed
    qed
    have le: "\<forall>x \<in> set post'. snd x \<le> snd r"
    proof
      fix x assume x: "x \<in> set post'"
      show "snd x \<le> snd r"
      proof (cases "snd x > 0")
        case True
        then have "x \<in> set fpost" using x d(3) by auto
        then show ?thesis using f(4) by blast
      next
        case False
        then show ?thesis by simp
      qed
    qed
    from table_scores_decompose [OF d(1)] obtain tpre i ps tpost where
      t: "intent_patterns = tpre @ [(i, ps)] @ tpost" "r = (i, intent_score ps m)"
         "pre' = map (\<lambda>(k, ps). (k, intent_score ps m)) tpre"
         "post' = map (\<lambda>(k, ps). (k, intent_score ps m)) tpost" by blast
    have di: "detect_intent m = (i, min (of_nat (intent_score ps m) * (3 / 10)) 1)"
      using kv f(2) t(2) by (simp add: detect_intent_def Let_def)
    have p1: "list_all (\<lambda>(j, qs). intent_score qs m < intent_score ps m) tpre"
      using lt t(2,3) by (auto simp: list_all_iff)
    have p2: "list_all (\<lambda>(j, qs). intent_score qs m \<le> intent_score ps m) tpost"
      using le t(2,4) by (auto simp: list_all_iff)
    show ?thesis using t(1) di rpos t(2) p1 p2 by auto
  qed
  have c: "0 \<le> snd (detect_intent m) \<and> snd (detect_intent m) \<le> 1"
    by (simp add: detect_intent_def Let_def split: list.splits)
  show ?thesis using a b c by blast
qed

theorem detect_intent_first_maximum_witness:
  "list_all (\<lambda>(i, ps). intent_score ps ''jane doe'' = 0) intent_patterns \<and>
   detect_intent ''jane doe'' = (UNKNOWN, 0) \<and>
   \<not> list_all (\<lambda>(i, ps). intent_score ps ''order status'' = 0) intent_patterns \<and>
   map (\<lambda>(i, ps). intent_score ps ''order status'') intent_patterns = [1, 1, 0, 0, 0, 0, 0, 0] \<and>
   detect_intent ''order status'' = (ORDER_CREATE, 3 / 10) \<and>
   map (\<lambda>(i, ps). intent_score ps ''hi, i need help, please help'') intent_patterns =
     [2, 0, 0, 0, 0, 2, 1, 0] \<and>
   detect_intent ''hi, i need help, please help'' = (ORDER_CREATE, 3 / 5) \<and>
   detect_intent ''stop stop stop stop'' = (ORDER_CANCEL, 1) \<and>
   0 \<le> snd (detect_intent ''order status'') \<and> snd (detect_intent ''order status'') \<le> 1"
proof -
  have h1: "list_all (\<lambda>(i, ps). intent_score ps ''jane doe'' = 0) intent_patterns"
    by code_simp
  have c1: "detect_intent ''jane doe'' = (UNKNOWN, 0)"
    using detect_intent_first_maximum [of "''jane doe''"] h1 by blast
  have h2: "\<not> list_all (\<lambda>(i, ps). intent_score ps ''order status'' = 0) intent_patterns"
    by code_simp
  have c2: "0 \<le> snd (detect_intent ''order status'') \<and> snd (detect_intent ''order status'') \<le> 1"
    using detect_intent_first_maximum [of "''order status''"] h2 by blast
  have e: "map (\<lambda>(i, ps). intent_score ps ''order status'') intent_patterns = [1, 1, 0, 0, 0, 0, 0, 0] \<and>
   detect_intent ''order status'' = (ORDER_CREATE, 3 / 10) \<and>
   map (\<lambda>(i, ps). intent_score ps ''hi, i need help, please help'') intent_patterns =
     [2, 0, 0, 0, 0, 2, 1, 0] \<and>
   detect_intent ''hi, i need help, please help'' = (ORDER_CREATE, 3 / 5) \<and>
   detect_intent ''stop stop stop stop'' = (ORDER_CANCEL, 1)"
    by code_simp
  show ?thesis using h1 c1 h2 c2 e by blast
qed

section \<open>Facts about the database service\<close>

lemma svc_DatabaseService [simp]:
  "svc_get_customer DatabaseService = (\<lambda>phone d. returning (get_customer phone d))"
  "svc_create_customer DatabaseService =
     (\<lambda>phone name metadata d. returning (create_customer phone name None (Some metadata) d))"
  "svc_create_order DatabaseService =
     (\<lambda>order_id phone product quantity details d.
        returning (create_order order_id phone product quantity (Some details) d))"
  "svc_get_order DatabaseService = (\<lambda>order_id d. returning (get_order order_id d))"
  "svc_get_customer_orders DatabaseService = (\<lambda>phone d. returning (get_customer_orders phone d))"
  "svc_cancel_order DatabaseService =
     (\<lambda>order_id reason d. returning (cancel_order order_id (Some reason) d))"
  by (simp_all add: DatabaseService_def)

lemma sqlite_block_frame:
  "orders (snd (sqlite_block d)) = orders d"
  "customers (snd (sqlite_block d)) = customers d"
  "sql_clock (snd (sqlite_block d)) = sql_clock d"
  "py_clock (snd (sqlite_block d)) = py_clock d"
  by (simp_all add: sqlite_block_def split: list.splits)

lemma get_customer_frame:
  "orders (snd (get_customer p d)) = orders d"
  "customers (snd (get_customer p d)) = customers d"
  "sql_clock (snd (get_customer p d)) = sql_clock d"
  "py_clock (snd (get_customer p d)) = py_clock d"
  using sqlite_block_frame [of d]
  by (auto simp: get_customer_def split: prod.splits bool.splits)

lemma create_customer_frame:
  "orders (snd (create_customer p n em md d)) = orders d"
  "sql_clock (snd (create_customer p n em md d)) = sql_clock d"
  "py_clock (snd (create_customer p n em md d)) = py_clock d"
  using sqlite_block_frame [of d]
  by (auto simp: create_customer_def split: prod.splits bool.splits)

lemma create_order_orders:
  "orders (snd (create_order oid p pr q det d)) = orders d \<or>
   (\<exists>r. orders (snd (create_order oid p pr q det d)) = AList.update oid r (orders d))"
proof -
  obtain c d1 where g: "get_customer p d = (c, d1)" by (cases "get_customer p d")
  define d2 where "d2 = (if c = None then snd (create_customer p None None None d1) else d1)"
  have o2: "orders d2 = orders d"
    using get_customer_frame(1) [of p d] g create_customer_frame(1) [of p None None None d1]
    by (simp add: d2_def)
  obtain ok d3 where b: "sqlite_block d2 = (ok, d3)" by (cases "sqlite_block d2")
  have o3: "orders d3 = orders d" using sqlite_block_frame(1) [of d2] b o2 by simp
  show ?thesis
    using g b o3 unfolding create_order_def d2_def [symmetric] Let_def
    by (auto simp: d2_def [symmetric] split: bool.splits)
qed

lemma get_order_frame:
  "orders (snd (get_order oid d)) = orders d"
  "customers (snd (get_order oid d)) = customers d"
  "sql_clock (snd (get_order oid d)) = sql_clock d"
  "py_clock (snd (get_order oid d)) = py_clock d"
  using sqlite_block_frame [of d]
  by (auto simp: get_order_def split: prod.splits bool.splits)

lemma get_order_result:
  "fst (get_order oid d) = None \<or> fst (get_order oid d) = map_of (orders d) oid"
  using sqlite_block_frame(1) [of d]
  by (auto simp: get_order_def split: prod.splits bool.splits)

lemma update_order_status_failure:
  assumes "\<not> fst (update_order_status oid s det d)"
  shows "orders (snd (update_order_status oid s det d)) = orders d \<and>
         customers (snd (update_order_status oid s det d)) = customers d"
proof -
  obtain ok d1 where b: "sqlite_block d = (ok, d1)" by (cases "sqlite_block d")
  have f1: "orders d1 = orders d" "customers d1 = customers d"
    using sqlite_block_frame(1,2) [of d] b by simp_all
  obtain c d2 where g: "get_order oid d1 = (c, d2)" by (cases "get_order oid d1")
  have f2: "orders d2 = orders d" "customers d2 = customers d"
    using get_order_frame(1,2) [of oid d1] g f1 by simp_all
  show ?thesis using assms b g f1 f2
    by (auto simp: update_order_status_def Let_def split: bool.splits option.splits)
qed

lemma cancel_order_body_cases:
  "cancel_order_body oid reason d =
     (case get_order oid d of
        (None, d1) \<Rightarrow> (Returns (False, ''Order not found''), d1)
      | (Some ord, d1) \<Rightarrow>
          if o_status ord = ''delivered'' \<or> o_status ord = ''cancelled'' then
            (Returns (False, ''Cannot cancel order with status: '' @ o_status ord), d1)
          else
            (case o_created_at ord of
               Unparsable \<Rightarrow> (Raises, d1)
             | Aware t \<Rightarrow> (Raises, d1)
             | Naive created_at \<Rightarrow>
                 if 86400000000 \<le> py_clock d1 - created_at then
                    (Returns (False, ''Order cannot be cancelled after 24 hours''), d1)
                 else
                    (let r = update_order_status oid ''cancelled''
                               (Some (AList.update ''cancelled_at'' (JIso (py_clock d1))
                                  (AList.update ''cancellation_reason''
                                     (JStr (case reason of
                                         None \<Rightarrow> ''Customer request''
                                       | Some r \<Rightarrow> if r \<noteq> [] then r else ''Customer request''))
                                (o_details ord)))) d1
                     in (Returns (fst r, if fst r then ''Order cancelled successfully''
                                           else ''Error cancelling order''), snd r))))"
  unfolding cancel_order_body_def timedelta_days_def
  by (auto simp: Let_def split: prod.splits option.splits stamp.splits)

lemma create_order_succeeds:
  assumes "faults d = []" "\<not> dict_has (orders d) oid" "sqlite_integer q"
  shows "fst (create_order oid p pr q det d) \<and>
         map_of (orders (snd (create_order oid p pr q det d))) oid =
           Some \<lparr> o_order_id = oid, o_customer_phone = p, o_product = pr, o_quantity = q,
                  o_status = ''pending'',
                  o_details = (case det of None \<Rightarrow> [] | Some m \<Rightarrow> m),
                  o_created_at = Naive (sql_clock d), o_updated_at = Naive (sql_clock d) \<rparr>"
  using assms
  by (simp add: create_order_def get_customer_def create_customer_def sqlite_block_def
      Let_def update_conv' split: option.splits)

section \<open>Order cancellation\<close>

text \<open>
  What holds of \<open>cancel_order\<close> on every database: it fails, with a message, when the
  order does not exist, when its status is delivered or cancelled, and when the
  difference that the code computes, the reading of \<open>datetime.now()\<close> minus the stored
  \<open>created_at\<close>, is more than 24 hours; and whenever it fails, the \<open>orders\<close> and
  \<open>customers\<close> tables are as before. (When the database cannot be read, the message is
  that the order was not found.)
\<close>

lemma cancel_order_failure_paths:
  "(map_of (orders d) oid = None \<longrightarrow>
      fst (cancel_order oid reason d) = (False, ''Order not found'')) \<and>
   (\<forall>r. map_of (orders d) oid = Some r \<and> o_status r \<in> set [''delivered'', ''cancelled''] \<longrightarrow>
      \<not> fst (fst (cancel_order oid reason d)) \<and>
      snd (fst (cancel_order oid reason d)) \<in>
        set [''Cannot cancel order with status: '' @ o_status r, ''Order not found'']) \<and>
   (\<forall>r t. map_of (orders d) oid = Some r \<and> o_created_at r = Naive t \<and>
          86400000000 < py_clock d - t \<longrightarrow>
      \<not> fst (fst (cancel_order oid reason d)) \<and>
      snd (fst (cancel_order oid reason d)) \<in>
        set [''Order cannot be cancelled after 24 hours'',
             ''Cannot cancel order with status: '' @ o_status r, ''Order not found'']) \<and>
   (\<not> fst (fst (cancel_order oid reason d)) \<longrightarrow>
      snd (fst (cancel_order oid reason d)) \<noteq> [] \<and>
      orders (snd (cancel_order oid reason d)) = orders d \<and>
      customers (snd (cancel_order oid reason d)) = customers d)"
proof -
  obtain c d1 where g: "get_order oid d = (c, d1)" by (cases "get_order oid d")
  have f1: "orders d1 = orders d" "customers d1 = customers d" "py_clock d1 = py_clock d"
    using get_order_frame(1,2,4) [of oid d] g by simp_all
  have c: "c = None \<or> c = map_of (orders d) oid" using get_order_result [of oid d] g by simp
  have upd: "\<not> fst (update_order_status oid s det d1) \<Longrightarrow>
       orders (snd (update_order_status oid s det d1)) = orders d \<and>
       customers (snd (update_order_status oid s det d1)) = customers d" for s det
    using update_order_status_failure [of oid s det d1] f1 by simp
  have p1: "fst (cancel_order oid reason d) = (False, ''Order not found'')"
    if "map_of (orders d) oid = None"
    using that c g by (simp add: cancel_order_def cancel_order_body_cases)
  have p2: "\<not> fst (fst (cancel_order oid reason d)) \<and>
      snd (fst (cancel_order oid reason d)) \<in>
        set [''Cannot cancel order with status: '' @ o_status r, ''Order not found'']"
    if "map_of (orders d) oid = Some r" "o_status r \<in> set [''delivered'', ''cancelled'']" for r
    using that c g by (auto simp: cancel_order_def cancel_order_body_cases)
  have p3: "\<not> fst (fst (cancel_order oid reason d)) \<and>
      snd (fst (cancel_order oid reason d)) \<in>
        set [''Order cannot be cancelled after 24 hours'',
             ''Cannot cancel order with status: '' @ o_status r, ''Order not found'']"
    if "map_of (orders d) oid = Some r" "o_created_at r = Naive t" "86400000000 < py_clock d - t"
    for r t
  proof (cases "o_status r = ''delivered'' \<or> o_status r = ''cancelled''")
    case True
    then show ?thesis using that c g by (auto simp: cancel_order_def cancel_order_body_cases)
  next
    case False
    have "86400000000 \<le> py_clock d1 - t" using that(3) f1(3) by simp
    then show ?thesis using False that(1,2) c g
      by (auto simp: cancel_order_def cancel_order_body_cases)
  qed
  have p4: "snd (fst (cancel_order oid reason d)) \<noteq> [] \<and>
      orders (snd (cancel_order oid reason d)) = orders d \<and>
      customers (snd (cancel_order oid reason d)) = customers d"
    if "\<not> fst (fst (cancel_order oid reason d))"
    using that g f1 upd
    by (auto simp: cancel_order_def cancel_order_body_cases Let_def
             split: option.splits stamp.splits if_splits)
  show ?thesis using p1 p2 p3 p4 by blast
qed

lemma cancel_order_failure_examples:
  "map_of (orders (cancel_db [])) ''ORD-9'' = None \<and>
   fst (cancel_order ''ORD-9'' None (cancel_db [])) = (False, ''Order not found'') \<and>
   map_of (orders (cancel_db [])) ''ORD-1'' = Some (sample_order ''ORD-1'' ''delivered'' 99999000000) \<and>
   o_status (sample_order ''ORD-1'' ''delivered'' 99999000000) \<in> set [''delivered'', ''cancelled''] \<and>
   fst (cancel_order ''ORD-1'' None (cancel_db [])) =
     (False, ''Cannot cancel order with status: delivered'') \<and>
   map_of (orders (cancel_db [])) ''ORD-2'' = Some (sample_order ''ORD-2'' ''pending'' 0) \<and>
   o_created_at (sample_order ''ORD-2'' ''pending'' 0) = Naive 0 \<and>
   86400000000 < py_clock (cancel_db []) - 0 \<and>
   fst (cancel_order ''ORD-2'' None (cancel_db [])) =
     (False, ''Order cannot be cancelled after 24 hours'') \<and>
   orders (snd (cancel_order ''ORD-2'' None (cancel_db []))) = orders (cancel_db []) \<and>
   fst (cancel_order ''ORD-3'' None (cancel_db [False, True])) =
     (False, ''Error cancelling order'') \<and>
   orders (snd (cancel_order ''ORD-3'' None (cancel_db [False, True]))) =
     orders (cancel_db [False, True]) \<and>
   fst (cancel_order ''ORD-3'' None (cancel_db [])) = (True, ''Order cancelled successfully'') \<and>
   map (\<lambda>(k, r). o_status r) (orders (snd (cancel_order ''ORD-3'' None (cancel_db [])))) =
     [''delivered'', ''pending'', ''cancelled'']"
proof -
  have h1: "map_of (orders (cancel_db [])) ''ORD-9'' = None" by code_simp
  have c1: "fst (cancel_order ''ORD-9'' None (cancel_db [])) = (False, ''Order not found'')"
    using cancel_order_failure_paths [of "cancel_db []" "''ORD-9''" None] h1 by blast
  have h2: "map_of (orders (cancel_db [])) ''ORD-1'' =
              Some (sample_order ''ORD-1'' ''delivered'' 99999000000) \<and>
            o_status (sample_order ''ORD-1'' ''delivered'' 99999000000) \<in>
              set [''delivered'', ''cancelled'']"
    by code_simp
  have c2: "\<not> fst (fst (cancel_order ''ORD-1'' None (cancel_db [])))"
    using cancel_order_failure_paths [of "cancel_db []" "''ORD-1''" None] h2 by blast
  have h3: "map_of (orders (cancel_db [])) ''ORD-2'' = Some (sample_order ''ORD-2'' ''pending'' 0) \<and>
            o_created_at (sample_order ''ORD-2'' ''pending'' 0) = Naive 0 \<and>
            86400000000 < py_clock (cancel_db []) - 0"
    by code_simp
  have c3: "\<not> fst (fst (cancel_order ''ORD-2'' None (cancel_db [])))"
    using cancel_order_failure_paths [of "cancel_db []" "''ORD-2''" None] h3 by blast
  have c4: "orders (snd (cancel_order ''ORD-2'' None (cancel_db []))) = orders (cancel_db [])"
    using cancel_order_failure_paths [of "cancel_db []" "''ORD-2''" None] c3 by blast
  have h5: "\<not> fst (fst (cancel_order ''ORD-3'' None (cancel_db [False, True])))" by code_simp
  have c5: "orders (snd (cancel_order ''ORD-3'' None (cancel_db [False, True]))) =
              orders (cancel_db [False, True])"
    using cancel_order_failure_paths [of "cancel_db [False, True]" "''ORD-3''" None] h5 by blast
  have e: "fst (cancel_order ''ORD-1'' None (cancel_db [])) =
             (False, ''Cannot cancel order with status: delivered'') \<and>
           fst (cancel_order ''ORD-2'' None (cancel_db [])) =
             (False, ''Order cannot be cancelled after 24 hours'') \<and>
           fst (cancel_order ''ORD-3'' None (cancel_db [False, True])) =
             (False, ''Error cancelling order'') \<and>
           fst (cancel_order ''ORD-3'' None (cancel_db [])) =
             (True, ''Order cancelled successfully'') \<and>
           map (\<lambda>(k, r). o_status r) (orders (snd (cancel_order ''ORD-3'' None (cancel_db [])))) =
             [''delivered'', ''pending'', ''cancelled'']"
    by code_simp
  show ?thesis using h1 c1 h2 h3 c4 c5 e by blast
qed

text \<open>
  Claim C6 (the code departs from it). The stored \<open>created_at\<close> is SQLite's
  \<open>CURRENT_TIMESTAMP\<close>, which reads UTC, and \<open>cancel_order\<close> subtracts it from
  \<open>datetime.now()\<close>, which reads local time. On a host eight hours west of UTC an order
  is created at reading 0 of the UTC clock. Thirty hours later, more than 24 hours after
  its creation, the difference the code computes is 22 hours: cancellation succeeds and
  the order's status becomes cancelled.
\<close>

theorem cancel_after_thirty_hours:
  "map_of (orders thirty_hours_later) ''ORD-C1675208'' =
     Some \<lparr> o_order_id = ''ORD-C1675208'', o_customer_phone = ''+15550001'',
            o_product = ''Laptop'', o_quantity = 1, o_status = ''pending'', o_details = [],
            o_created_at = Naive 0, o_updated_at = Naive 0 \<rparr> \<and>
   sql_clock order_at_creation = 0 \<and>
   py_clock order_at_creation - sql_clock order_at_creation = - hours 8 \<and>
   sql_clock thirty_hours_later - sql_clock order_at_creation = hours 30 \<and>
   py_clock thirty_hours_later - py_clock order_at_creation = hours 30 \<and>
   hours 24 = 86400000000 \<and> hours 24 < hours 30 \<and>
   py_clock thirty_hours_later - 0 = hours 22 \<and>
   fst (cancel_order ''ORD-C1675208'' None thirty_hours_later) =
     (True, ''Order cancelled successfully'') \<and>
   map (\<lambda>(k, r). o_status r)
     (orders (snd (cancel_order ''ORD-C1675208'' None thirty_hours_later))) = [''cancelled'']"
  by code_simp

section \<open>The rejection classifier\<close>

lemma lower_not_interested: "py_lower ''not interested'' = ''not interested''"
  by (simp add: py_lower_def lower_char_def upper_chars_def lower_chars_def)

text \<open>
  Claim C5. For every text the rejection classifier returns exactly one of the five
  rejection types. The phrase sets are tried in the order not-interested, too-expensive,
  wrong-timing, need-to-think on the lower-cased text, the first set with a phrase in the
  text decides, and without any phrase the type is general-no. In particular a text that
  contains both "too expensive" and "not interested" is classified as not-interested.
\<close>

theorem analyze_rejection_priority:
  "analyze_rejection m \<in> set rejection_types \<and>
   (any_in not_interested_phrases (py_lower m) \<longrightarrow> analyze_rejection m = ''not_interested'') \<and>
   (\<not> any_in not_interested_phrases (py_lower m) \<and>
      any_in too_expensive_phrases (py_lower m) \<longrightarrow> analyze_rejection m = ''too_expensive'') \<and>
   (\<not> any_in not_interested_phrases (py_lower m) \<and>
    \<not> any_in too_expensive_phrases (py_lower m) \<and>
      any_in wrong_timing_phrases (py_lower m) \<longrightarrow> analyze_rejection m = ''wrong_timing'') \<and>
   (\<not> any_in not_interested_phrases (py_lower m) \<and>
    \<not> any_in too_expensive_phrases (py_lower m) \<and>
    \<not> any_in wrong_timing_phrases (py_lower m) \<and>
      any_in need_to_think_phrases (py_lower m) \<longrightarrow> analyze_rejection m = ''need_to_think'') \<and>
   (\<not> any_in not_interested_phrases (py_lower m) \<and>
    \<not> any_in too_expensive_phrases (py_lower m) \<and>
    \<not> any_in wrong_timing_phrases (py_lower m) \<and>
    \<not> any_in need_to_think_phrases (py_lower m) \<longrightarrow> analyze_rejection m = ''general_no'') \<and>
   (py_in ''too expensive'' m \<and> py_in ''not interested'' m \<longrightarrow>
      analyze_rejection m = ''not_interested'')"
proof -
  have types: "analyze_rejection m \<in> set rejection_types"
    by (simp add: analyze_rejection_def rejection_types_def Let_def)
  have both: "analyze_rejection m = ''not_interested''" if "py_in ''not interested'' m"
  proof -
    have "py_in ''not interested'' (py_lower m)"
      using py_in_lower [OF that] by (simp only: lower_not_interested)
    then have "any_in not_interested_phrases (py_lower m)"
      by (rule any_in_member [rotated]) (simp add: not_interested_phrases_def)
    then show ?thesis by (simp add: analyze_rejection_def Let_def)
  qed
  show ?thesis
    using types both by (simp add: analyze_rejection_def Let_def)
qed

theorem analyze_rejection_priority_witness:
  "py_in ''too expensive'' ''Too pricey, too expensive, and I am not interested'' \<and>
   py_in ''not interested'' ''Too pricey, too expensive, and I am not interested'' \<and>
   any_in not_interested_phrases (py_lower ''Too pricey, too expensive, and I am not interested'') \<and>
   analyze_rejection ''Too pricey, too expensive, and I am not interested'' = ''not_interested'' \<and>
   \<not> any_in not_interested_phrases (py_lower ''This is TOO EXPENSIVE, maybe later'') \<and>
   any_in too_expensive_phrases (py_lower ''This is TOO EXPENSIVE, maybe later'') \<and>
   analyze_rejection ''This is TOO EXPENSIVE, maybe later'' = ''too_expensive'' \<and>
   \<not> any_in too_expensive_phrases (py_lower ''Not now, I am busy'') \<and>
   any_in wrong_timing_phrases (py_lower ''Not now, I am busy'') \<and>
   analyze_rejection ''Not now, I am busy'' = ''wrong_timing'' \<and>
   \<not> any_in wrong_timing_phrases (py_lower ''Let me decide'') \<and>
   any_in need_to_think_phrases (py_lower ''Let me decide'') \<and>
   analyze_rejection ''Let me decide'' = ''need_to_think'' \<and>
   \<not> any_in need_to_think_phrases (py_lower ''No thanks'') \<and>
   analyze_rejection ''No thanks'' = ''general_no'' \<and>
   analyze_rejection ''No thanks'' \<in> set rejection_types"
  using analyze_rejection_priority [of "''Too pricey, too expensive, and I am not interested''"]
        analyze_rejection_priority [of "''This is TOO EXPENSIVE, maybe later''"]
        analyze_rejection_priority [of "''Not now, I am busy''"]
        analyze_rejection_priority [of "''Let me decide''"]
        analyze_rejection_priority [of "''No thanks''"]
  by code_simp

section \<open>Order ids\<close>

lemma length_hex_of: "length (hex_of n v) = n"
  by (induction n arbitrary: v) auto

lemma hex_of_chars: "set (hex_of n v) \<subseteq> set hex_chars"
proof (induction n arbitrary: v)
  case 0
  then show ?case by simp
next
  case (Suc n)
  have "nat (v mod 16) < length hex_chars" by (simp add: hex_chars_def)
  then have "hex_chars ! nat (v mod 16) \<in> set hex_chars" by (rule nth_mem)
  then show ?case using Suc.IH [of "v div 16"] by simp
qed

lemma upper_hex_char:
  "c \<in> set hex_chars \<Longrightarrow> upper_char c \<in> set (upper_chars @ digit_chars)"
  by (auto simp: hex_chars_def upper_char_def upper_chars_def lower_chars_def digit_chars_def)

lemma take8_uuid_str: "take 8 (uuid_str u) = take 8 (hex_of 32 (uint u))"
  by (simp add: uuid_str_def Let_def length_hex_of)

lemma new_order_id_format: "ord_id_format (new_order_id u)"
proof -
  let ?t = "py_upper (take 8 (hex_of 32 (uint u)))"
  have id: "new_order_id u = ''ORD-'' @ ?t"
    by (simp add: new_order_id_def take8_uuid_str)
  have len: "length ?t = 8" by (simp add: py_upper_def length_hex_of)
  have "set (take 8 (hex_of 32 (uint u))) \<subseteq> set hex_chars"
    using hex_of_chars set_take_subset by fastforce
  then have chars: "list_all (\<lambda>c. c \<in> set (upper_chars @ digit_chars)) ?t"
    using upper_hex_char by (auto simp: py_upper_def list_all_iff)
  show ?thesis unfolding ord_id_format_def id using len chars by simp
qed

lemma ids_ok_same: "orders d' = orders d \<Longrightarrow> ids_ok d d'"
  by (auto simp: ids_ok_def list_all_iff dict_has_def map_of_eq_None_iff intro: rev_image_eqI)

lemma ids_ok_update:
  "orders d' = AList.update oid r (orders d) \<Longrightarrow> ord_id_format oid \<Longrightarrow> ids_ok d d'"
proof -
  assume a: "orders d' = AList.update oid r (orders d)" and f: "ord_id_format oid"
  have "fst ` set (orders d') = {oid} \<union> fst ` set (orders d)"
    using a by (simp add: dom_update)
  then show ?thesis using f
    by (auto simp: ids_ok_def list_all_iff dict_has_def map_of_eq_None_iff)
qed

lemma create_order_ids_ok:
  "orders d = orders d0 \<Longrightarrow> ids_ok d0 (snd (create_order (new_order_id u) p pr q det d))"
  using create_order_orders [of "new_order_id u" p pr q det d]
        ids_ok_same ids_ok_update new_order_id_format
  by metis

lemma create_order_from_message_ids:
  "ids_ok (database st) (database (snd (create_order_from_message DatabaseService e message sender st)))"
proof (cases "extract_order_details message")
  case Raises
  then show ?thesis
    by (simp add: create_order_from_message_def create_order_from_message_body_def try_except_def
        ids_ok_same)
next
  case (Returns od)
  obtain c d1 where g: "get_customer sender (database st) = (c, d1)"
    by (cases "get_customer sender (database st)")
  have o1: "orders d1 = orders (database st)" using get_customer_frame(1) [of sender "database st"] g by simp
  define d2 where "d2 = (if c = None then snd (create_customer sender
       (Some (dict_get od ''customer_name'' ''Unknown'')) None (Some [(''source'', JStr ''whatsapp_order'')]) d1) else d1)"
  have o2: "orders d2 = orders (database st)"
    using o1 create_customer_frame(1) by (simp add: d2_def)
  show ?thesis
    using Returns g o2 ids_ok_same [of d2 "database st"]
      create_order_ids_ok [OF o2]
    unfolding create_order_from_message_def create_order_from_message_body_def
    by (auto simp: try_except_def call_def with_db_def returning_def Let_def d2_def
             split: prod.splits outcome.splits option.splits if_splits)
qed

lemma record_answer_database [simp]:
  "database (record_answer sender field message next_step od st) = database st"
  by (simp add: record_answer_def)

lemma store_answer_database [simp]:
  "database (store_answer sender field message od st) = database st"
  by (simp add: store_answer_def)

lemma continue_order_creation_ids:
  "ids_ok (database st) (database (snd (continue_order_creation DatabaseService e message sender st)))"
proof (cases "map_of (pending_orders st) sender")
  case None
  then show ?thesis by (simp add: continue_order_creation_def ids_ok_same)
next
  case (Some od)
  have same: "ids_ok (database st) (database st)" by (simp add: ids_ok_same)
  have co: "ids_ok (database st) (snd (create_order (new_order_id (env_uuid4 e)) p pr q det (database st)))"
    for p pr q det
    by (rule create_order_ids_ok) simp
  show ?thesis
    using Some same co
    unfolding continue_order_creation_def continue_order_creation_body_def
    by (auto simp: try_except_def call_def with_db_def returning_def Let_def
             split: prod.splits outcome.splits option.splits if_splits)
qed

text \<open>
  Claim C9. Every order id that an order-creation path generates has the shape
  \<open>ORD-[A-Z0-9]{8}\<close>: the id built from any UUID has it, and after the single-shot
  path, after a step of the guided path, and after the order-creation handler as a
  whole, every order in the database was there before or carries such an id.
\<close>

theorem generated_order_ids:
  "ord_id_format (new_order_id u) \<and>
   ids_ok (database st)
     (database (snd (create_order_from_message DatabaseService e message sender st))) \<and>
   ids_ok (database st)
     (database (snd (continue_order_creation DatabaseService e message sender st))) \<and>
   ids_ok (database st)
     (database (snd (handle_order_creation DatabaseService e message sender parsed st)))"
proof -
  have "ids_ok (database st)
     (database (snd (handle_order_creation DatabaseService e message sender parsed st)))"
    using create_order_from_message_ids [of st e message sender]
          continue_order_creation_ids [of st e message sender]
    by (simp add: handle_order_creation_def start_guided_order_creation_def ids_ok_same)
  then show ?thesis
    using new_order_id_format create_order_from_message_ids continue_order_creation_ids
    by blast
qed

theorem generated_order_ids_witness:
  "map fst (orders (database (snd (create_order_from_message DatabaseService env1
      order_without_name ''+15550001'' fresh_state)))) = [''ORD-C1675208''] \<and>
   ord_id_format ''ORD-C1675208'' \<and>
   new_order_id (env_uuid4 env1) = ''ORD-C1675208'' \<and>
   ids_ok (database fresh_state)
     (database (snd (create_order_from_message DatabaseService env1
        order_without_name ''+15550001'' fresh_state)))"
  using generated_order_ids [of "env_uuid4 env1" fresh_state env1 order_without_name "''+15550001''"]
  by code_simp

section \<open>The customer record of a single-shot order\<close>

text \<open>
  Claim C7 (the code departs from it). The message below carries the labels product,
  phone and address, so it counts as a complete order, and it supplies no customer name.
  No customer record exists for the sender. The single-shot path creates the customer
  record with the empty string as its name, not with "Unknown": the record of
  \<open>extract_order_details\<close> always holds the key \<open>customer_name\<close>, so the default of
  \<open>order_details.get('customer_name', 'Unknown')\<close> is never taken.
\<close>

theorem single_shot_customer_name:
  "is_complete_order order_without_name \<and>
   intent (parse_message order_without_name) = ORDER_CREATE \<and>
   extract_order_details order_without_name =
     Returns [(''product'', ''I want to order''), (''quantity'', ''1''), (''customer_name'', []),
              (''customer_phone'', ''555-0123''), (''address'', ''1 Main St''),
              (''notes'', ''product: laptop'')] \<and>
   map_of (customers (database fresh_state)) ''+15550001'' = None \<and>
   map_of (customers (database (snd (create_order_from_message DatabaseService env1
       order_without_name ''+15550001'' fresh_state)))) ''+15550001'' =
     Some \<lparr> c_phone_number = ''+15550001'', c_name = Some [], c_email = None,
            c_created_at = 0, c_updated_at = 0,
            c_metadata = [(''source'', JStr ''whatsapp_order'')] \<rparr> \<and>
   c_name (the (map_of (customers (database (snd (create_order_from_message DatabaseService env1
       order_without_name ''+15550001'' fresh_state)))) ''+15550001'')) \<noteq> Some ''Unknown''"
  by code_simp

section \<open>Facts about the order agent\<close>

lemma strip_answers:
  "py_strip ''Laptop'' = ''Laptop''" "py_strip ''Jane Doe'' = ''Jane Doe''"
  "py_strip ''555-0123'' = ''555-0123''" "py_strip ''1 Main St'' = ''1 Main St''"
  by (simp_all add: py_strip_def is_space_def space_chars_def)

lemma map_of_update_same: "map_of (AList.update k v al) k = Some v"
  by (simp add: update_conv')

lemma dict_has_update_same [simp]: "dict_has (AList.update k v al) k"
  by (simp add: dict_has_def update_conv')

lemma dict_has_delete_same [simp]: "\<not> dict_has (AList.delete k al) k"
  by (simp add: dict_has_def delete_conv')

section \<open>The guided order\<close>

lemma step1:
  "deliver svc e sender ''Laptop'' (snd (start_guided_order_creation e0 m0 sender st)) =
     st\<lparr>pending_orders := AList.update sender
          \<lparr>step = ''name'', data = [(''product'', ''Laptop'')], started_at = env_now e0\<rparr>
          (pending_orders st)\<rparr>"
  by (simp add: deliver_def start_guided_order_creation_def handle_order_creation_def
      continue_order_creation_def continue_order_creation_body_def try_except_def
      record_answer_def strip_answers update_conv' Let_def)

lemma step_name:
  "deliver svc e sender ''Jane Doe''
     (st\<lparr>pending_orders := AList.update sender
          \<lparr>step = ''name'', data = [(''product'', ''Laptop'')], started_at = t\<rparr> al\<rparr>) =
     st\<lparr>pending_orders := AList.update sender
          \<lparr>step = ''phone'', data = [(''product'', ''Laptop''), (''customer_name'', ''Jane Doe'')],
            started_at = t\<rparr> al\<rparr>"
  by (simp add: deliver_def handle_order_creation_def
      continue_order_creation_def continue_order_creation_body_def try_except_def
      record_answer_def strip_answers update_conv' Let_def)

lemma step_phone:
  "deliver svc e sender ''555-0123''
     (st\<lparr>pending_orders := AList.update sender
          \<lparr>step = ''phone'', data = [(''product'', ''Laptop''), (''customer_name'', ''Jane Doe'')],
            started_at = t\<rparr> al\<rparr>) =
     st\<lparr>pending_orders := AList.update sender
          \<lparr>step = ''address'',
            data = [(''product'', ''Laptop''), (''customer_name'', ''Jane Doe''),
                    (''customer_phone'', ''555-0123'')],
            started_at = t\<rparr> al\<rparr>"
  by (simp add: deliver_def handle_order_creation_def
      continue_order_creation_def continue_order_creation_body_def try_except_def
      record_answer_def strip_answers update_conv' Let_def)


lemma guided_details_answers:
  "guided_details [(''product'', ''Laptop''), (''customer_name'', ''Jane Doe''),
                   (''customer_phone'', ''555-0123''), (''address'', ''1 Main St'')] =
     [(''product'', JStr ''Laptop''), (''customer_name'', JStr ''Jane Doe''),
      (''customer_phone'', JStr ''555-0123''), (''address'', JStr ''1 Main St''),
      (''created_via'', JStr ''whatsapp_guided''), (''agent_processed'', JBool True)]"
  by (simp add: guided_details_def)

lemma step_address:
  "deliver DatabaseService e sender ''1 Main St''
     (st\<lparr>pending_orders := AList.update sender
          \<lparr>step = ''address'',
            data = [(''product'', ''Laptop''), (''customer_name'', ''Jane Doe''),
                    (''customer_phone'', ''555-0123'')],
            started_at = t\<rparr> al\<rparr>) =
     st\<lparr>pending_orders := AList.delete sender al,
        database := snd (create_order (new_order_id (env_uuid4 e)) sender ''Laptop'' 1
          (Some [(''product'', JStr ''Laptop''), (''customer_name'', JStr ''Jane Doe''),
                 (''customer_phone'', JStr ''555-0123''), (''address'', JStr ''1 Main St''),
                 (''created_via'', JStr ''whatsapp_guided''), (''agent_processed'', JBool True)])
          (database st))\<rparr>"
  by (simp add: deliver_def handle_order_creation_def
      continue_order_creation_def continue_order_creation_body_def try_except_def call_def
      with_db_def returning_def dict_item_def guided_details_answers [simplified]
      store_answer_def strip_answers update_conv' delete_update_same Let_def
      split: prod.splits)

text \<open>
  Claim C2. A guided session is started for a sender and the answers "Laptop",
  "Jane Doe", "555-0123" and "1 Main St" are delivered in sequence to the order-creation
  handler. When the database works and the generated order id is not yet taken, the
  database then holds an order under that id whose detail bag has product,
  customer_name, customer_phone and address with these values, and no session of the
  sender is left.
\<close>

theorem guided_order_four_answers:
  assumes "faults (database st) = []"
      and "\<not> dict_has (orders (database st)) (new_order_id (env_uuid4 e))"
  shows "(\<exists>r. map_of (orders (database
                 (four_answers DatabaseService e0 e sender first_message st)))
               (new_order_id (env_uuid4 e)) = Some r \<and>
             o_customer_phone r = sender \<and> o_product r = ''Laptop'' \<and>
             map_of (o_details r) ''product'' = Some (JStr ''Laptop'') \<and>
             map_of (o_details r) ''customer_name'' = Some (JStr ''Jane Doe'') \<and>
             map_of (o_details r) ''customer_phone'' = Some (JStr ''555-0123'') \<and>
             map_of (o_details r) ''address'' = Some (JStr ''1 Main St'')) \<and>
         \<not> dict_has (pending_orders
                (four_answers DatabaseService e0 e sender first_message st)) sender"
proof -
  let ?det = "[(''product'', JStr ''Laptop''), (''customer_name'', JStr ''Jane Doe''),
                 (''customer_phone'', JStr ''555-0123''), (''address'', JStr ''1 Main St''),
                 (''created_via'', JStr ''whatsapp_guided''), (''agent_processed'', JBool True)]"
  have run: "four_answers DatabaseService e0 e sender first_message st =
     st\<lparr>pending_orders := AList.delete sender (pending_orders st),
        database := snd (create_order (new_order_id (env_uuid4 e)) sender ''Laptop'' 1
          (Some ?det) (database st))\<rparr>"
    unfolding four_answers_def by (simp only: step1 step_name step_phone step_address)
  have int: "sqlite_integer 1" by (simp add: sqlite_integer_def)
  from create_order_succeeds [OF assms(1) assms(2) int, of sender "''Laptop''" "Some ?det"]
  show ?thesis by (simp add: run)
qed

theorem guided_order_four_answers_witness:
  "faults (database fresh_state) = [] \<and>
   \<not> dict_has (orders (database fresh_state)) (new_order_id (env_uuid4 env1)) \<and>
   map_of (orders (database
       (four_answers DatabaseService env1 env1 ''+15550001'' ''order'' fresh_state)))
     ''ORD-C1675208'' =
     Some \<lparr> o_order_id = ''ORD-C1675208'', o_customer_phone = ''+15550001'',
            o_product = ''Laptop'', o_quantity = 1, o_status = ''pending'',
            o_details =
              [(''product'', JStr ''Laptop''), (''customer_name'', JStr ''Jane Doe''),
               (''customer_phone'', JStr ''555-0123''), (''address'', JStr ''1 Main St''),
               (''created_via'', JStr ''whatsapp_guided''), (''agent_processed'', JBool True)],
            o_created_at = Naive 0, o_updated_at = Naive 0 \<rparr> \<and>
   \<not> dict_has (pending_orders
       (four_answers DatabaseService env1 env1 ''+15550001'' ''order'' fresh_state))
     ''+15550001''"
proof -
  have h: "faults (database fresh_state) = [] \<and>
           \<not> dict_has (orders (database fresh_state)) (new_order_id (env_uuid4 env1))"
    by code_simp
  have c: "\<not> dict_has (pending_orders
       (four_answers DatabaseService env1 env1 ''+15550001'' ''order'' fresh_state))
     ''+15550001''"
    using guided_order_four_answers [of fresh_state env1 env1 "''+15550001''" "''order''"] h
    by blast
  have e: "map_of (orders (database
       (four_answers DatabaseService env1 env1 ''+15550001'' ''order'' fresh_state)))
     ''ORD-C1675208'' =
     Some \<lparr> o_order_id = ''ORD-C1675208'', o_customer_phone = ''+15550001'',
            o_product = ''Laptop'', o_quantity = 1, o_status = ''pending'',
            o_details =
              [(''product'', JStr ''Laptop''), (''customer_name'', JStr ''Jane Doe''),
               (''customer_phone'', JStr ''555-0123''), (''address'', JStr ''1 Main St''),
               (''created_via'', JStr ''whatsapp_guided''), (''agent_processed'', JBool True)],
            o_created_at = Naive 0, o_updated_at = Naive 0 \<rparr>"
    by code_simp
  show ?thesis using h c e by blast
qed

section \<open>Facts about routing\<close>

lemma wf_update:
  "wf_sessions st \<Longrightarrow> step po \<in> set wizard_steps \<Longrightarrow>
   wf_sessions (st\<lparr>pending_orders := AList.update k po (pending_orders st)\<rparr>)"
proof -
  assume a: "wf_sessions st" "step po \<in> set wizard_steps"
  have "set (AList.update k po al) \<subseteq> insert (k, po) (set al)" for al :: "(string \<times> pending_order) list"
    by (induction al) auto
  then show ?thesis using a by (fastforce simp: wf_sessions_def list_all_iff)
qed

lemma wf_delete:
  "wf_sessions st \<Longrightarrow> wf_sessions (st\<lparr>pending_orders := AList.delete k (pending_orders st)\<rparr>)"
  by (auto simp: wf_sessions_def list_all_iff AList.delete_eq)

lemma wf_database [simp]: "wf_sessions (st\<lparr>database := d\<rparr>) = wf_sessions st"
  by (simp add: wf_sessions_def)

lemma wf_with_db [simp]: "wf_sessions (snd (with_db f st)) = wf_sessions st"
  by (simp add: with_db_def split: prod.splits)

lemma wf_lookup:
  "wf_sessions st \<Longrightarrow> map_of (pending_orders st) k = Some po \<Longrightarrow> step po \<in> set wizard_steps"
proof -
  assume w: "wf_sessions st" and m: "map_of (pending_orders st) k = Some po"
  from m have "(k, po) \<in> set (pending_orders st)" by (rule map_of_SomeD)
  then show ?thesis using w by (fastforce simp: wf_sessions_def list_all_iff)
qed

lemma safe_call:
  assumes "wf_sessions (snd m)" "\<And>v s. wf_sessions s \<Longrightarrow> safe_result (k v s)"
  shows "safe_result (call m k)"
  using assms by (cases m; cases "fst m") (auto simp: call_def safe_result_def)

lemma text_try:
  assumes "safe_result body" "\<And>s. wf_sessions s \<Longrightarrow> text_result (h s)"
  shows "text_result (try_except body h)"
  using assms
  by (cases body; cases "fst body")
     (auto simp: try_except_def safe_result_def text_result_def split: option.splits)

lemma text_safe: "text_result res \<Longrightarrow> safe_result res"
  by (auto simp: text_result_def safe_result_def split: outcome.splits option.splits)

lemma safe_returns [simp]: "safe_result (Returns (Some r), s) = wf_sessions s"
  by (simp add: safe_result_def)

lemma safe_raises [simp]: "safe_result (Raises, s) = wf_sessions s"
  by (simp add: safe_result_def)

lemma text_returns [simp]: "text_result (Returns (Some r), s) = wf_sessions s"
  by (simp add: text_result_def)

lemma wf_record_answer:
  "wf_sessions st \<Longrightarrow> nxt \<in> set wizard_steps \<Longrightarrow>
   wf_sessions (record_answer sender field message nxt od st)"
  unfolding record_answer_def by (rule wf_update) simp_all

lemma wf_store_answer:
  "wf_sessions st \<Longrightarrow> step od \<in> set wizard_steps \<Longrightarrow>
   wf_sessions (store_answer sender field message od st)"
  unfolding store_answer_def by (rule wf_update) simp_all

lemma wf_initial: "pending_orders st = [] \<Longrightarrow> wf_sessions st"
  by (simp add: wf_sessions_def)

lemma finish_safe:
  "wf_sessions s \<Longrightarrow>
   safe_result
     (if dict_has (pending_orders s) sender
      then let st3 = s\<lparr>pending_orders := AList.delete sender (pending_orders s)\<rparr>
           in if success then (Returns (Some (get_order_confirmation oid d)), st3)
              else (Returns (Some OrderCreateError), st3)
      else (Raises, s))"
  by (simp add: Let_def wf_delete)

lemma continue_body_safe:
  assumes "wf_sessions st" "step od \<in> set wizard_steps"
  shows "safe_result (continue_order_creation_body svc e message sender od st)"
proof -
  have n: "''name'' \<in> set wizard_steps" "''phone'' \<in> set wizard_steps"
    "''address'' \<in> set wizard_steps" by (simp_all add: wizard_steps_def)
  note ra = wf_record_answer [OF assms(1)]
  consider "step od = ''product''" | "step od = ''name''" | "step od = ''phone''"
    | "step od = ''address''" using assms(2) by (auto simp: wizard_steps_def)
  then show ?thesis
  proof cases
    case 1 then show ?thesis using ra n by (simp add: continue_order_creation_body_def)
  next
    case 2 then show ?thesis using ra n by (simp add: continue_order_creation_body_def)
  next
    case 3 then show ?thesis using ra n by (simp add: continue_order_creation_body_def)
  next
    case 4
    let ?st1 = "store_answer sender ''address'' message od st"
    have w1: "wf_sessions ?st1" using wf_store_answer [OF assms] by simp
    show ?thesis using 4 w1
      by (auto simp: continue_order_creation_body_def Let_def split: outcome.splits
          intro!: safe_call finish_safe)
  qed
qed

lemma continue_text:
  assumes "wf_sessions st" "dict_has (pending_orders st) sender"
  shows "text_result (continue_order_creation svc e message sender st)"
proof -
  from assms(2) obtain od where od: "map_of (pending_orders st) sender = Some od"
    by (auto simp: dict_has_def)
  have s: "step od \<in> set wizard_steps" using wf_lookup [OF assms(1) od] .
  show ?thesis unfolding continue_order_creation_def using od
    by (auto intro!: text_try continue_body_safe [OF assms(1) s] simp: wf_delete)
qed

lemma create_from_message_text:
  assumes "wf_sessions st"
  shows "text_result (create_order_from_message svc e message sender st)"
  unfolding create_order_from_message_def create_order_from_message_body_def
  using assms
  by (auto intro!: text_try safe_call simp: Let_def split: outcome.splits option.splits)

lemma start_text:
  "wf_sessions st \<Longrightarrow> text_result (start_guided_order_creation e message sender st)"
  unfolding start_guided_order_creation_def
  by (auto intro!: wf_update simp: wizard_steps_def)

lemma handle_order_creation_text:
  "wf_sessions st \<Longrightarrow> text_result (handle_order_creation svc e message sender parsed st)"
  by (simp add: handle_order_creation_def continue_text create_from_message_text start_text)

lemma handle_order_status_safe:
  "wf_sessions st \<Longrightarrow> safe_result (handle_order_status svc message sender parsed st)"
  unfolding handle_order_status_def
  by (auto intro!: safe_call split: option.splits)

lemma handle_order_cancellation_safe:
  "wf_sessions st \<Longrightarrow> safe_result (handle_order_cancellation svc message sender parsed st)"
  unfolding handle_order_cancellation_def
  by (auto intro!: safe_call simp: Let_def split: option.splits outcome.splits)

lemma order_handle_message_text:
  "wf_sessions st \<Longrightarrow> text_result (order_handle_message svc e i message sender parsed st)"
  unfolding order_handle_message_def
  by (auto intro!: text_try text_safe handle_order_creation_text handle_order_status_safe
        handle_order_cancellation_safe)

lemma handle_greeting_safe:
  "wf_sessions st \<Longrightarrow> safe_result (handle_greeting svc sender st)"
  unfolding handle_greeting_def
  by (auto intro!: safe_call split: option.splits)

lemma route_text:
  "wf_sessions st \<Longrightarrow> text_result (route_to_agent svc opn e i message sender parsed st)"
  unfolding route_to_agent_def
  by (auto intro!: text_try text_safe order_handle_message_text handle_greeting_safe)

lemma route_not_raises:
  "fst (route_to_agent svc opn e i message sender parsed st) \<noteq> Raises"
  unfolding route_to_agent_def try_except_def
  by (auto split: prod.splits outcome.splits)

lemma continue_raises_deletes:
  assumes "map_of (pending_orders st) sender = Some od"
      and "fst (continue_order_creation_body svc e message sender od st) = Raises"
  shows "fst (continue_order_creation svc e message sender st) = Returns (Some WizardRestart) \<and>
         \<not> dict_has (pending_orders (snd (continue_order_creation svc e message sender st))) sender"
proof -
  obtain s where b: "continue_order_creation_body svc e message sender od st = (Raises, s)"
    using assms(2) by (cases "continue_order_creation_body svc e message sender od st") auto
  show ?thesis using assms(1) b
    by (simp add: continue_order_creation_def try_except_def)
qed

lemma route_order_create_active:
  assumes "map_of (pending_orders st) sender = Some od"
      and "fst (continue_order_creation svc e message sender st) = Returns r"
  shows "route_to_agent svc opn e ORDER_CREATE message sender parsed st =
           continue_order_creation svc e message sender st"
proof -
  have "dict_has (pending_orders st) sender" using assms(1) by (simp add: dict_has_def)
  then show ?thesis using assms(2)
    by (cases "continue_order_creation svc e message sender st")
       (simp add: route_to_agent_def order_handle_message_def handle_order_creation_def
          try_except_def)
qed

text \<open>Only the order-creation intent ever touches the sessions.\<close>

lemma pending_with_db [simp]: "pending_orders (snd (with_db f st)) = pending_orders st"
  by (simp add: with_db_def split: prod.splits)

lemma pending_call:
  assumes "pending_orders (snd m) = p"
      and "\<And>v s. pending_orders s = p \<Longrightarrow> pending_orders (snd (k v s)) = p"
  shows "pending_orders (snd (call m k)) = p"
  using assms by (cases m; cases "fst m") (auto simp: call_def)

lemma pending_try:
  assumes "pending_orders (snd body) = p"
      and "\<And>s. pending_orders s = p \<Longrightarrow> pending_orders (snd (h s)) = p"
  shows "pending_orders (snd (try_except body h)) = p"
  using assms by (cases body; cases "fst body") (auto simp: try_except_def)

lemma handle_order_status_sessions:
  "pending_orders (snd (handle_order_status svc message sender parsed st)) = pending_orders st"
  unfolding handle_order_status_def
  by (auto intro!: pending_call split: option.splits)

lemma handle_order_cancellation_sessions:
  "pending_orders (snd (handle_order_cancellation svc message sender parsed st)) =
     pending_orders st"
  unfolding handle_order_cancellation_def
  by (auto intro!: pending_call simp: Let_def split: option.splits outcome.splits)

lemma handle_greeting_sessions:
  "pending_orders (snd (handle_greeting svc sender st)) = pending_orders st"
  unfolding handle_greeting_def
  by (auto intro!: pending_call split: option.splits)

lemma route_other_intent_sessions:
  "i \<noteq> ORDER_CREATE \<Longrightarrow>
   pending_orders (snd (route_to_agent svc opn e i message sender parsed st)) = pending_orders st"
  unfolding route_to_agent_def order_handle_message_def
  by (auto intro!: pending_try handle_order_status_sessions handle_order_cancellation_sessions
        handle_greeting_sessions)

text \<open>
  Claim C3. For every database service (also one that raises), intent, text and sender,
  routing never raises. From a state whose sessions are well formed (every state the
  agents reach) it returns a text and leaves the sessions well formed. When the body of
  the guided order's \<open>try\<close> raises while a sender's session is continued, routing answers
  with the start-over text and that sender's session is gone. An exception in the
  greeting handler becomes the router's apology, and one in the status or cancellation
  handler becomes the order agent's apology.
\<close>

theorem routing_contains_exceptions:
  "fst (route_to_agent svc opn e i message sender parsed st) \<noteq> Raises \<and>
   (wf_sessions st \<longrightarrow>
      (\<exists>r. fst (route_to_agent svc opn e i message sender parsed st) = Returns (Some r)) \<and>
      wf_sessions (snd (route_to_agent svc opn e i message sender parsed st))) \<and>
   (\<forall>od. map_of (pending_orders st) sender = Some od \<and>
         fst (continue_order_creation_body svc e message sender od st) = Raises \<longrightarrow>
      fst (route_to_agent svc opn e ORDER_CREATE message sender parsed st) =
        Returns (Some WizardRestart) \<and>
      \<not> dict_has (pending_orders
           (snd (route_to_agent svc opn e ORDER_CREATE message sender parsed st))) sender) \<and>
   (fst (handle_greeting svc sender st) = Raises \<longrightarrow>
      fst (route_to_agent svc opn e GREETING message sender parsed st) =
        Returns (Some RouterError)) \<and>
   (fst (handle_order_status svc message sender parsed st) = Raises \<longrightarrow>
      fst (route_to_agent svc opn e ORDER_STATUS message sender parsed st) =
        Returns (Some OrderAgentError)) \<and>
   (fst (handle_order_cancellation svc message sender parsed st) = Raises \<longrightarrow>
      fst (route_to_agent svc opn e ORDER_CANCEL message sender parsed st) =
        Returns (Some OrderAgentError))"
proof -
  have a: "fst (route_to_agent svc opn e i message sender parsed st) \<noteq> Raises"
    by (rule route_not_raises)
  have b: "(\<exists>r. fst (route_to_agent svc opn e i message sender parsed st) = Returns (Some r)) \<and>
      wf_sessions (snd (route_to_agent svc opn e i message sender parsed st))"
    if "wf_sessions st"
    using route_text [OF that, of svc opn e i message sender parsed]
    by (auto simp: text_result_def split: outcome.splits option.splits)
  have c: "fst (route_to_agent svc opn e ORDER_CREATE message sender parsed st) =
        Returns (Some WizardRestart) \<and>
      \<not> dict_has (pending_orders
           (snd (route_to_agent svc opn e ORDER_CREATE message sender parsed st))) sender"
    if "map_of (pending_orders st) sender = Some od"
       "fst (continue_order_creation_body svc e message sender od st) = Raises" for od
    using continue_raises_deletes [OF that] route_order_create_active [OF that(1)]
    by simp
  have d: "fst (route_to_agent svc opn e GREETING message sender parsed st) =
        Returns (Some RouterError)"
    if "fst (handle_greeting svc sender st) = Raises"
    using that by (cases "handle_greeting svc sender st")
      (simp add: route_to_agent_def try_except_def)
  have f: "fst (route_to_agent svc opn e ORDER_STATUS message sender parsed st) =
        Returns (Some OrderAgentError)"
    if "fst (handle_order_status svc message sender parsed st) = Raises"
    using that by (cases "handle_order_status svc message sender parsed st")
      (simp add: route_to_agent_def order_handle_message_def try_except_def)
  have g: "fst (route_to_agent svc opn e ORDER_CANCEL message sender parsed st) =
        Returns (Some OrderAgentError)"
    if "fst (handle_order_cancellation svc message sender parsed st) = Raises"
    using that by (cases "handle_order_cancellation svc message sender parsed st")
      (simp add: route_to_agent_def order_handle_message_def try_except_def)
  show ?thesis using a b c d f g by blast
qed

theorem routing_contains_exceptions_witness:
  "wf_sessions address_state \<and>
   map_of (pending_orders address_state) ''+15550001'' =
     Some \<lparr> step = ''address'',
            data = [(''product'', ''Laptop''), (''customer_name'', ''Jane Doe''),
                    (''customer_phone'', ''555-0123'')],
            started_at = 0 \<rparr> \<and>
   fst (continue_order_creation_body failing_service env1 ''1 Main St'' ''+15550001''
          \<lparr> step = ''address'',
            data = [(''product'', ''Laptop''), (''customer_name'', ''Jane Doe''),
                    (''customer_phone'', ''555-0123'')],
            started_at = 0 \<rparr> address_state) = Raises \<and>
   fst (route_to_agent failing_service True env1 ORDER_CREATE ''1 Main St'' ''+15550001''
          (parse_message ''1 Main St'') address_state) = Returns (Some WizardRestart) \<and>
   pending_orders (snd (route_to_agent failing_service True env1 ORDER_CREATE ''1 Main St''
          ''+15550001'' (parse_message ''1 Main St'') address_state)) = [] \<and>
   wf_sessions (snd (route_to_agent failing_service True env1 ORDER_CREATE ''1 Main St''
          ''+15550001'' (parse_message ''1 Main St'') address_state)) \<and>
   fst (handle_greeting failing_service ''+15550001'' address_state) = Raises \<and>
   fst (route_to_agent failing_service True env1 GREETING ''hello'' ''+15550001''
          (parse_message ''hello'') address_state) = Returns (Some RouterError) \<and>
   fst (handle_order_status failing_service ''status'' ''+15550001''
          (parse_message ''status'') address_state) = Raises \<and>
   fst (route_to_agent failing_service True env1 ORDER_STATUS ''status'' ''+15550001''
          (parse_message ''status'') address_state) = Returns (Some OrderAgentError) \<and>
   fst (handle_order_cancellation failing_service ''cancel'' ''+15550001''
          (parse_message ''cancel'') address_state) = Raises \<and>
   fst (route_to_agent failing_service True env1 ORDER_CANCEL ''cancel'' ''+15550001''
          (parse_message ''cancel'') address_state) = Returns (Some OrderAgentError)"
proof -
  let ?od = "\<lparr> step = ''address'',
            data = [(''product'', ''Laptop''), (''customer_name'', ''Jane Doe''),
                    (''customer_phone'', ''555-0123'')],
            started_at = 0 \<rparr>"
  have h1: "wf_sessions address_state" by code_simp
  have h2: "map_of (pending_orders address_state) ''+15550001'' = Some ?od" by code_simp
  have h3: "fst (continue_order_creation_body failing_service env1 ''1 Main St'' ''+15550001''
          ?od address_state) = Raises" by code_simp
  note t = routing_contains_exceptions [of failing_service True env1 _ _ "''+15550001''" _
      address_state]
  have c1: "fst (route_to_agent failing_service True env1 ORDER_CREATE ''1 Main St'' ''+15550001''
          (parse_message ''1 Main St'') address_state) = Returns (Some WizardRestart)"
    using t [of ORDER_CREATE "''1 Main St''" "parse_message ''1 Main St''"] h2 h3 by blast
  have c2: "wf_sessions (snd (route_to_agent failing_service True env1 ORDER_CREATE ''1 Main St''
          ''+15550001'' (parse_message ''1 Main St'') address_state))"
    using t [of ORDER_CREATE "''1 Main St''" "parse_message ''1 Main St''"] h1 by blast
  have h4: "fst (handle_greeting failing_service ''+15550001'' address_state) = Raises"
    by code_simp
  have c4: "fst (route_to_agent failing_service True env1 GREETING ''hello'' ''+15550001''
          (parse_message ''hello'') address_state) = Returns (Some RouterError)"
    using t [of GREETING "''hello''" "parse_message ''hello''"] h4 by blast
  have h5: "fst (handle_order_status failing_service ''status'' ''+15550001''
          (parse_message ''status'') address_state) = Raises" by code_simp
  have c5: "fst (route_to_agent failing_service True env1 ORDER_STATUS ''status'' ''+15550001''
          (parse_message ''status'') address_state) = Returns (Some OrderAgentError)"
    using t [of ORDER_STATUS "''status''" "parse_message ''status''"] h5 by blast
  have h6: "fst (handle_order_cancellation failing_service ''cancel'' ''+15550001''
          (parse_message ''cancel'') address_state) = Raises" by code_simp
  have c6: "fst (route_to_agent failing_service True env1 ORDER_CANCEL ''cancel'' ''+15550001''
          (parse_message ''cancel'') address_state) = Returns (Some OrderAgentError)"
    using t [of ORDER_CANCEL "''cancel''" "parse_message ''cancel''"] h6 by blast
  have e: "pending_orders (snd (route_to_agent failing_service True env1 ORDER_CREATE ''1 Main St''
          ''+15550001'' (parse_message ''1 Main St'') address_state)) = []"
    by code_simp
  show ?thesis using h1 h2 h3 c1 c2 h4 c4 h5 c5 h6 c6 e by blast
qed

section \<open>Routing with a session in progress\<close>

text \<open>
  Claim C1 (the code departs from it). A sender has a session at its first step and
  answers "Laptop", as the prompt asks. The classifier gives \<open>UNKNOWN\<close>, so the router
  answers with the unknown-intent menu and the session is left as it was: the message is
  not taken as the answer to the session's step. Delivered to the order-creation
  handler, the same message records the product and moves the session to its next step.
  The same holds for the other answers of a guided order.
\<close>

theorem active_session_not_continued:
  "dict_has (pending_orders product_state) ''+15550001'' \<and>
   intent (parse_message ''Laptop'') = UNKNOWN \<and>
   route_to_agent DatabaseService True env1 (intent (parse_message ''Laptop'')) ''Laptop''
       ''+15550001'' (parse_message ''Laptop'') product_state =
     (Returns (Some UnknownMenu), product_state) \<and>
   handle_order_creation DatabaseService env1 ''Laptop'' ''+15550001''
       (parse_message ''Laptop'') product_state =
     (Returns (Some NamePrompt),
      product_state\<lparr>pending_orders :=
        [(''+15550001'',
          \<lparr> step = ''name'', data = [(''product'', ''Laptop'')], started_at = 0 \<rparr>)]\<rparr>) \<and>
   map (\<lambda>m. intent (parse_message m)) [''Jane Doe'', ''555-0123'', ''1 Main St''] =
     [UNKNOWN, UNKNOWN, UNKNOWN]"
  by code_simp


end
